theory Spec2Isabelle
  imports Complex_Main "HOL-Library.AList"
begin

section \<open>The ellipse command (ellipseCmd.ts)\<close>

text \<open>
  The command works on objects of the external data model: points, vectors and ellipse
  entities. Coordinates and radii are JavaScript numbers; they are idealised here as
  real numbers, so that the claims about the data flow of the command can be stated
  exactly.
\<close>

subsection \<open>Points, vectors and ellipse entities of the data model\<close>

text \<open>A point: its fields are the source's \<open>x\<close>, \<open>y\<close> and \<open>z\<close>.\<close>

record AcGePoint3dLike =
  px :: real
  py :: real
  pz :: real

record AcGeVector3d =
  vx :: real
  vy :: real
  vz :: real

text \<open>\<open>new AcGeVector3d(x, y, z)\<close>.\<close>

definition new_AcGeVector3d :: "real \<Rightarrow> real \<Rightarrow> real \<Rightarrow> AcGeVector3d" where
  "new_AcGeVector3d a b c = \<lparr>vx = a, vy = b, vz = c\<rparr>"

text \<open>
  Modelled from the spec: \<open>AcGeVector3d.Z_AXIS\<close> is a constant of the external library;
  the spec calls it the canonical up-axis (Z axis).
\<close>

definition Z_AXIS :: AcGeVector3d where
  "Z_AXIS = \<lparr>vx = 0, vy = 0, vz = 1\<rparr>"

text \<open>
  Modelled from the spec: \<open>AcGeVector3d.length()\<close> is a method of the external library;
  the spec gives the major-axis radius as \<open>|V|\<close>, the Euclidean length.
\<close>

definition vlength :: "AcGeVector3d \<Rightarrow> real" where
  "vlength v = sqrt (vx v * vx v + vy v * vy v + vz v * vz v)"

text \<open>
  Modelled from the spec: \<open>AcGeVector3d.normalize()\<close> is a method of the external
  library; the spec gives the major-axis direction as \<open>V / |V|\<close>, undefined if
  \<open>|V| = 0\<close>. The undefined direction is the value \<open>None\<close>.
\<close>

definition normalize_vec :: "AcGeVector3d \<Rightarrow> AcGeVector3d option" where
  "normalize_vec v =
     (if vlength v = 0 then None
      else Some \<lparr>vx = vx v / vlength v, vy = vy v / vlength v, vz = vz v / vlength v\<rparr>)"

text \<open>
  The ellipse entity. Its fields are the seven arguments of the library's constructor
  \<open>new AcDbEllipse(center, normal, majorAxis, majorAxisRadius, minorAxisRadius,
  startAngle, endAngle)\<close>, which is taken to store them as given.
\<close>

record AcDbEllipse =
  center :: AcGePoint3dLike
  normal :: AcGeVector3d
  majorAxis :: "AcGeVector3d option"
  majorAxisRadius :: real
  minorAxisRadius :: real
  startAngle :: real
  endAngle :: real

definition new_AcDbEllipse ::
  "AcGePoint3dLike \<Rightarrow> AcGeVector3d \<Rightarrow> AcGeVector3d option \<Rightarrow> real \<Rightarrow> real \<Rightarrow> real \<Rightarrow> real
    \<Rightarrow> AcDbEllipse" where
  "new_AcDbEllipse c n a rmajor rminor s e =
     \<lparr>center = c, normal = n, majorAxis = a, majorAxisRadius = rmajor,
      minorAxisRadius = rminor, startAngle = s, endAngle = e\<rparr>"

subsection \<open>The preview jig\<close>

text \<open>
  \<open>AcApEllipseJig\<close> holds one private field, the preview ellipse. The view handed to
  the base class constructor plays no part in the ellipse and is left out.
\<close>

record AcApEllipseJig =
  ellipse_field :: AcDbEllipse

text \<open>The constructor, lines 13 to 30 of ellipseCmd.ts.\<close>

definition new_AcApEllipseJig :: "AcGePoint3dLike \<Rightarrow> AcGePoint3dLike \<Rightarrow> AcApEllipseJig" where
  "new_AcApEllipseJig c majorAxisEndPoint =
     (let majorAxisV = new_AcGeVector3d
            (px majorAxisEndPoint - px c)
            (py majorAxisEndPoint - py c)
            (pz majorAxisEndPoint - pz c);
          majorRadius = vlength majorAxisV
      in \<lparr>ellipse_field =
            new_AcDbEllipse c Z_AXIS (normalize_vec majorAxisV) majorRadius majorRadius 0 (pi * 2)\<rparr>)"

text \<open>The getter \<open>entity\<close>.\<close>

definition entity :: "AcApEllipseJig \<Rightarrow> AcDbEllipse" where
  "entity jig = ellipse_field jig"

text \<open>\<open>update(minorRadius)\<close> assigns the minor radius of the preview ellipse.\<close>

definition update :: "real \<Rightarrow> AcApEllipseJig \<Rightarrow> AcApEllipseJig" where
  "update minorRadius jig =
     jig\<lparr>ellipse_field := (ellipse_field jig)\<lparr>minorAxisRadius := minorRadius\<rparr>\<rparr>"

subsection \<open>The command\<close>

text \<open>
  What the user answers to the three prompts of \<open>execute\<close>: the centre, the end point
  of the major axis, and for the distance prompt the candidate values tried before the
  committed one.
\<close>

record prompt_answers =
  answer_center :: AcGePoint3dLike
  answer_majorAxisEndPoint :: AcGePoint3dLike
  answer_candidates :: "real list"
  answer_minorRadius :: real

text \<open>
  Modelled from the spec: \<open>editor.getDistance\<close> belongs to the external prompt
  subsystem; while the value is being chosen it calls \<open>update(candidateValue)\<close> on
  the jig of the prompt for each candidate, and it returns the committed value.
\<close>

definition getDistance :: "AcApEllipseJig \<Rightarrow> real list \<Rightarrow> real \<Rightarrow> AcApEllipseJig \<times> real" where
  "getDistance jig candidates committed = (foldl (\<lambda>j v. update v j) jig candidates, committed)"

text \<open>The model space of the database: the entities appended so far, in order.\<close>

type_synonym modelSpace = "AcDbEllipse list"

definition appendEntity :: "AcDbEllipse \<Rightarrow> modelSpace \<Rightarrow> modelSpace" where
  "appendEntity e ms = ms @ [e]"

text \<open>
  \<open>AcApEllipseCmd.execute\<close>, lines 45 to 85 of ellipseCmd.ts. The result is the jig
  as the prompt left it and the model space after the command. The source has no
  \<open>throw\<close> and no early return, so the model has no error branch.
\<close>

definition execute :: "prompt_answers \<Rightarrow> modelSpace \<Rightarrow> AcApEllipseJig \<times> modelSpace" where
  "execute answers ms =
     (let c = answer_center answers;
          majorAxisEndPoint = answer_majorAxisEndPoint answers;
          (jig, minorRadius) =
             getDistance (new_AcApEllipseJig c majorAxisEndPoint)
               (answer_candidates answers) (answer_minorRadius answers);
          majorAxisV = new_AcGeVector3d
            (px majorAxisEndPoint - px c)
            (py majorAxisEndPoint - py c)
            (pz majorAxisEndPoint - pz c);
          majorRadius = vlength majorAxisV;
          ellipse = new_AcDbEllipse c Z_AXIS (normalize_vec majorAxisV) majorRadius minorRadius 0 (pi * 2)
      in (jig, appendEntity ellipse ms))"

text \<open>The entity the command commits: the last one of the model space it returns.\<close>

definition committed :: "prompt_answers \<Rightarrow> modelSpace \<Rightarrow> AcDbEllipse" where
  "committed answers ms = last (snd (execute answers ms))"

section \<open>The viewer application (main.ts)\<close>

text \<open>
  The file main.ts holds two versions of the class \<open>CadViewerApp\<close>, one after the
  other: lines 1 to 218, with the guarded \<open>initialize\<close> and the ellipse command, and
  lines 219 to 431, which creates the runtime in its constructor. Both are modelled.
  Where a method differs between the two, the model of the second carries the suffix
  \<open>2\<close>; \<open>showMessage\<close> and \<open>clearMessages\<close> are the same text in both.
\<close>

subsection \<open>Strings\<close>

text \<open>
  A string is a list of bytes. \<open>toLowerCase\<close> maps the letters \<open>A\<close> to \<open>Z\<close>
  (codes 65 to 90) to \<open>a\<close> to \<open>z\<close> by adding 32, which in that range is setting the
  bit of value 32, and leaves every other byte alone. No character outside ASCII has
  one of the letters of \<open>.dxf\<close> and \<open>.dwg\<close> as its lower case, so for the suffix
  tests of this program the ASCII reading agrees with JavaScript's.
\<close>

fun toLowerCase_char :: "char \<Rightarrow> char" where
  "toLowerCase_char (Char b0 b1 b2 b3 b4 b5 b6 b7) =
     (let n = (of_char (Char b0 b1 b2 b3 b4 b5 b6 b7) :: nat)
      in if 65 \<le> n \<and> n \<le> 90 then Char b0 b1 b2 b3 b4 True b6 b7
         else Char b0 b1 b2 b3 b4 b5 b6 b7)"

definition toLowerCase :: "string \<Rightarrow> string" where
  "toLowerCase s = map toLowerCase_char s"

text \<open>\<open>s.endsWith(t)\<close>: the last \<open>length t\<close> characters of \<open>s\<close> are \<open>t\<close>.\<close>

definition endsWith :: "string \<Rightarrow> string \<Rightarrow> bool" where
  "endsWith s t = (length t \<le> length s \<and> drop (length s - length t) s = t)"

subsection \<open>The page, its timers and the runtime\<close>

text \<open>
  An element of the page: an identity, its class names, its text and the style
  properties assigned to it.
\<close>

record element =
  el_id :: nat
  classList :: "string list"
  textContent :: string
  style :: "(string \<times> string) list"

definition set_style :: "string \<Rightarrow> string \<Rightarrow> element \<Rightarrow> element" where
  "set_style k v e = e\<lparr>style := AList.update k v (style e)\<rparr>"

text \<open>The selector \<open>.popup-message\<close>.\<close>

definition is_popup :: "element \<Rightarrow> bool" where
  "is_popup e = (''popup-message'' \<in> set (classList e))"

datatype message_type = Success | Error | Info

fun type_text :: "message_type \<Rightarrow> string" where
  "type_text Success = ''success''"
| "type_text Error = ''error''"
| "type_text Info = ''info''"

text \<open>What a timer does when it fires: the two nested callbacks of \<open>showMessage\<close>.\<close>

datatype timer_action = FadeOut nat | RemovePopup nat

text \<open>What a file read gives: a string (\<open>readAsText\<close>) or a buffer (\<open>readAsArrayBuffer\<close>).\<close>

datatype fileContent = Text string | ArrayBuffer string

record File =
  file_name :: string
  file_data :: string

record AcDbOpenDatabaseOptions =
  minimumChunkSize :: nat
  readOnly :: bool

text \<open>The calls that reach the runtime and the file reader, in the order they are made.\<close>

datatype call =
    CreateInstance
  | InitializeLocale
  | AddCommand string string string
  | ReadAsArrayBuffer string
  | ReadAsText string
  | OpenDocument string fileContent AcDbOpenDatabaseOptions

text \<open>
  The runtime instance \<open>AcApDocManager.instance\<close>: the options it was created with and
  the commands registered with its command manager.
\<close>

record AcApDocManager =
  container :: string
  autoResize :: "bool option"
  baseUrl :: "string option"
  commands :: "(string \<times> string \<times> string) list"

text \<open>
  The state the application works on: its own flag, the runtime singleton, the part of
  the page it touches (the children of \<open>document.body\<close>, the element
  \<open>fileInputContainer\<close> if there is one, the display of the new-drawing button, of its
  label if there is one, and of the loading element), the browser's timers with the
  clock, the console, and the trace of calls.
\<close>

record app =
  isInitialized :: bool
  docManager :: "AcApDocManager option"
  body :: "element list"
  next_id :: nat
  fileInputContainer :: "string list option"
  newDrawingButton_display :: string
  newButtonLabel_display :: "string option"
  loading_display :: string
  now :: nat
  timers :: "(nat \<times> timer_action) list"
  console :: "string list"
  trace :: "call list"

text \<open>
  What the surroundings decide during one operation: whether \<open>createInstance\<close>,
  \<open>initializeLocale\<close> and \<open>addCommand\<close> throw (\<open>Some\<close> the error), whether the file
  reader fails, and what \<open>openDocument\<close> answers (\<open>Inl\<close> a rejection, \<open>Inr\<close> the
  boolean it resolves to).
\<close>

record environment =
  createInstance_error :: "string option"
  initializeLocale_error :: "string option"
  addCommand_error :: "string option"
  read_error :: "string option"
  openDocument_result :: "string + bool"

subsection \<open>Timers\<close>

text \<open>
  \<open>setTimeout(f, d)\<close> queues \<open>f\<close> for the time \<open>now + d\<close>. The queue is kept in the
  order the timers fire: by due time, and among equal due times in the order queued.
\<close>

fun enqueue :: "nat \<times> timer_action \<Rightarrow> (nat \<times> timer_action) list \<Rightarrow> (nat \<times> timer_action) list" where
  "enqueue t [] = [t]"
| "enqueue t (u # us) = (if fst t < fst u then t # u # us else u # enqueue t us)"

definition setTimeout :: "timer_action \<Rightarrow> nat \<Rightarrow> app \<Rightarrow> app" where
  "setTimeout f d s = s\<lparr>timers := enqueue (now s + d, f) (timers s)\<rparr>"

text \<open>
  The callbacks of \<open>showMessage\<close>. The outer one sets the opacity of its popup to
  \<open>0\<close> and queues the inner one 200 ms later; the inner one removes the popup if it
  still has a parent. A popup that was removed meanwhile is no longer among the
  children of the body, so both leave the page as it is then.
\<close>

fun fire :: "timer_action \<Rightarrow> app \<Rightarrow> app" where
  "fire (FadeOut i) s =
     setTimeout (RemovePopup i) 200
       (s\<lparr>body := map (\<lambda>e. if el_id e = i then set_style ''opacity'' ''0'' e else e) (body s)\<rparr>)"
| "fire (RemovePopup i) s = s\<lparr>body := filter (\<lambda>e. el_id e \<noteq> i) (body s)\<rparr>"

fun weight :: "nat \<times> timer_action \<Rightarrow> nat" where
  "weight (d, FadeOut i) = 2"
| "weight (d, RemovePopup i) = 1"

lemma weight_enqueue: "sum_list (map weight (enqueue t ts)) = weight t + sum_list (map weight ts)"
  by (induction ts) simp_all

text \<open>
  The page left alone: the clock runs and every queued timer fires in turn, the ones
  they queue included, until none is left.
\<close>

function run_timers :: "app \<Rightarrow> app" where
  "run_timers s =
     (case timers s of
        [] \<Rightarrow> s
      | (due, f) # rest \<Rightarrow> run_timers (fire f (s\<lparr>timers := rest, now := max (now s) due\<rparr>)))"
  by pat_completeness auto
termination
proof (relation "measure (\<lambda>s. sum_list (map weight (timers s)))")
  show "wf (measure (\<lambda>s. sum_list (map weight (timers s))))"
    by simp
next
  fix s :: app and t rest due f
  assume "timers s = t # rest" "(due, f) = t"
  then show "(fire f (s\<lparr>timers := rest, now := max (now s) due\<rparr>), s)
      \<in> measure (\<lambda>s. sum_list (map weight (timers s)))"
    by (cases f) (auto simp: setTimeout_def weight_enqueue)
qed

subsection \<open>Messages\<close>

text \<open>\<open>clearMessages\<close>: every element of class \<open>popup-message\<close> is removed.\<close>

definition clearMessages :: "app \<Rightarrow> app" where
  "clearMessages s = s\<lparr>body := filter (\<lambda>e. \<not> is_popup e) (body s)\<rparr>"

text \<open>The style of a new popup, in the order of the assignments of \<open>showMessage\<close>.\<close>

definition popup_style :: "message_type \<Rightarrow> (string \<times> string) list" where
  "popup_style ty =
     [(''position'', ''fixed''), (''top'', ''2rem''), (''left'', ''50%''),
      (''transform'', ''translateX(-50%)''), (''zIndex'', ''1000''),
      (''padding'', ''1rem 2rem''), (''borderRadius'', ''8px''),
      (''boxShadow'', ''0 2px 8px rgba(0,0,0,0.15)''), (''fontSize'', ''1.1rem''),
      (''opacity'', ''0.98''), (''transition'', ''opacity 0.2s'')] @
     (case ty of
        Error \<Rightarrow> [(''background'', ''#ffe6e6''), (''color'', ''#dc3545''),
                  (''border'', ''1px solid #ffcccc'')]
      | Success \<Rightarrow> [(''background'', ''#e6ffe6''), (''color'', ''#28a745''),
                    (''border'', ''1px solid #ccffcc'')]
      | Info \<Rightarrow> [(''background'', ''#f0f0f0''), (''color'', ''#333''),
                 (''border'', ''1px solid #ccc'')])"

definition new_popup :: "nat \<Rightarrow> string \<Rightarrow> message_type \<Rightarrow> element" where
  "new_popup i message ty =
     \<lparr>el_id = i, classList = [''popup-message'', type_text ty], textContent = message,
      style = popup_style ty\<rparr>"

text \<open>
  \<open>showMessage\<close>: clear the old messages, create the popup, append it to the body,
  and start the timer that fades it out after 1000 ms.
\<close>

definition showMessage :: "string \<Rightarrow> message_type \<Rightarrow> app \<Rightarrow> app" where
  "showMessage message ty s =
     (let s1 = clearMessages s;
          popup = new_popup (next_id s1) message ty;
          s2 = s1\<lparr>body := body s1 @ [popup], next_id := Suc (next_id s1)\<rparr>
      in setTimeout (FadeOut (el_id popup)) 1000 s2)"

definition console_error :: "string \<Rightarrow> app \<Rightarrow> app" where
  "console_error msg s = s\<lparr>console := console s @ [msg]\<rparr>"

subsection \<open>Bootstrap (first version)\<close>

text \<open>
  Modelled from the spec: \<open>AcApDocManager.createInstance\<close> is a function of the external
  runtime; it creates the runtime instance bound to a canvas or container element, with
  options such as auto-resize and an asset base URL. The model records each
  construction in the trace. A call that throws constructs nothing.
\<close>

definition createInstance ::
  "environment \<Rightarrow> string \<Rightarrow> bool option \<Rightarrow> string option \<Rightarrow> app \<Rightarrow> string + app" where
  "createInstance env cont resize url s =
     (case createInstance_error env of
        Some e \<Rightarrow> Inl e
      | None \<Rightarrow> Inr (s\<lparr>docManager := Some \<lparr>container = cont, autoResize = resize,
                                           baseUrl = url, commands = []\<rparr>,
                       trace := trace s @ [CreateInstance]\<rparr>))"

text \<open>
  Modelled from the spec: \<open>initializeLocale\<close> is a function of the module i8n of this
  repository, which is not among the sources; all that is known of it is that it is
  called here and may throw.
\<close>

definition initializeLocale :: "environment \<Rightarrow> app \<Rightarrow> string + app" where
  "initializeLocale env s =
     (case initializeLocale_error env of
        Some e \<Rightarrow> Inl e
      | None \<Rightarrow> Inr (s\<lparr>trace := trace s @ [InitializeLocale]\<rparr>))"

text \<open>
  \<open>registerCommands\<close>, lines 44 to 52: the command \<open>ellipse\<close> is added to the system
  command group of the instance. Without an instance the property access throws.
\<close>

definition registerCommands :: "environment \<Rightarrow> app \<Rightarrow> string + app" where
  "registerCommands env s =
     (case docManager s of
        None \<Rightarrow> Inl ''TypeError: AcApDocManager.instance is undefined''
      | Some m \<Rightarrow>
          (case addCommand_error env of
             Some e \<Rightarrow> Inl e
           | None \<Rightarrow>
               Inr (s\<lparr>docManager :=
                         Some (m\<lparr>commands := commands m @
                            [(''SYSTEMT_COMMAND_GROUP_NAME'', ''ellipse'', ''ellipse'')]\<rparr>),
                      trace := trace s @
                        [AddCommand ''SYSTEMT_COMMAND_GROUP_NAME'' ''ellipse'' ''ellipse'']\<rparr>)))"

text \<open>
  \<open>initialize\<close>, lines 23 to 42. The three calls of the \<open>try\<close> block run in order; the
  first that throws ends the block, whatever the earlier ones did stays done, and the
  handler logs the error and shows a message. The flag is set only when all three
  returned.
\<close>

definition initialize_try :: "environment \<Rightarrow> app \<Rightarrow> (string \<times> app) + app" where
  "initialize_try env s =
     (case createInstance env ''cad-container'' (Some True)
             (Some ''https://cdn.jsdelivr.net/gh/mlightcad/cad-data@main/'') s of
        Inl e \<Rightarrow> Inl (e, s)
      | Inr s1 \<Rightarrow>
          (case initializeLocale env s1 of
             Inl e \<Rightarrow> Inl (e, s1)
           | Inr s2 \<Rightarrow>
               (case registerCommands env s2 of
                  Inl e \<Rightarrow> Inl (e, s2)
                | Inr s3 \<Rightarrow> Inr (s3\<lparr>isInitialized := True\<rparr>))))"

definition initialize :: "environment \<Rightarrow> app \<Rightarrow> app" where
  "initialize env s =
     (if \<not> isInitialized s then
        (case initialize_try env s of
           Inr s' \<Rightarrow> s'
         | Inl (e, s') \<Rightarrow>
             showMessage ''Failed to initialize CAD viewer'' Error
               (console_error (''Failed to initialize CAD viewer: '' @ e) s'))
      else s)"

subsection \<open>Loading a file (first version)\<close>

text \<open>\<open>hideNewButton\<close>, lines 65 to 73.\<close>

definition hideNewButton :: "app \<Rightarrow> app" where
  "hideNewButton s =
     s\<lparr>newDrawingButton_display := ''none'',
       newButtonLabel_display :=
         (case newButtonLabel_display s of None \<Rightarrow> None | Some d \<Rightarrow> Some ''none'')\<rparr>"

text \<open>\<open>fileInputContainer.classList.add('loaded')\<close>, if the element exists.\<close>

definition add_loaded :: "app \<Rightarrow> app" where
  "add_loaded s =
     s\<lparr>fileInputContainer :=
         (case fileInputContainer s of
            None \<Rightarrow> None
          | Some cl \<Rightarrow> Some (if ''loaded'' \<in> set cl then cl else cl @ [''loaded'']))\<rparr>"

text \<open>
  \<open>readFile\<close>, lines 148 to 155: the file is read with \<open>readAsArrayBuffer\<close>, whatever
  its name. The promise resolves to the buffer or rejects with the reader's error.
\<close>

definition readFile :: "environment \<Rightarrow> File \<Rightarrow> app \<Rightarrow> (string + fileContent) \<times> app" where
  "readFile env f s =
     (let s1 = s\<lparr>trace := trace s @ [ReadAsArrayBuffer (file_name f)]\<rparr>
      in case read_error env of
           Some e \<Rightarrow> (Inl e, s1)
         | None \<Rightarrow> (Inr (ArrayBuffer (file_data f)), s1))"

text \<open>
  Modelled from the spec: \<open>openDocument\<close> is the runtime's document-open entry point; it
  takes a file name, the content and options, and returns success or failure. Without
  an instance the property access throws before any call is made.
\<close>

definition openDocument ::
  "environment \<Rightarrow> string \<Rightarrow> fileContent \<Rightarrow> AcDbOpenDatabaseOptions \<Rightarrow> app \<Rightarrow> (string + bool) \<times> app" where
  "openDocument env nm content opts s =
     (case docManager s of
        None \<Rightarrow> (Inl ''TypeError: AcApDocManager.instance is undefined'', s)
      | Some m \<Rightarrow> (openDocument_result env, s\<lparr>trace := trace s @ [OpenDocument nm content opts]\<rparr>))"

text \<open>
  The \<open>try\<close> block of \<open>loadFile\<close> after the read, the same in both versions: mark the
  container, open the document, report the answer. \<open>Inl\<close> is an exception on its way
  to the handler.
\<close>

definition open_and_report :: "environment \<Rightarrow> File \<Rightarrow> fileContent \<Rightarrow> app \<Rightarrow> (string \<times> app) + app" where
  "open_and_report env f content s =
     (let s1 = add_loaded s;
          opts = \<lparr>minimumChunkSize = 1000, readOnly = True\<rparr>
      in case openDocument env (file_name f) content opts s1 of
           (Inl e, s2) \<Rightarrow> Inl (e, s2)
         | (Inr ok, s2) \<Rightarrow>
             Inr (if ok then showMessage (''Successfully loaded: '' @ file_name f) Success s2
                  else showMessage (''Failed to load: '' @ file_name f) Error s2))"

text \<open>The handler of \<open>loadFile\<close>, the same in both versions.\<close>

definition load_catch :: "string \<Rightarrow> app \<Rightarrow> app" where
  "load_catch e s =
     showMessage (''Error loading file: '' @ e) Error
       (console_error (''Error loading file: '' @ e) s)"

text \<open>\<open>loadFile\<close>, lines 101 to 146.\<close>

definition loadFile :: "environment \<Rightarrow> File \<Rightarrow> app \<Rightarrow> app" where
  "loadFile env f s =
     (let s0 = initialize env s;
          fileName = toLowerCase (file_name f)
      in if \<not> endsWith fileName ''.dxf'' \<and> \<not> endsWith fileName ''.dwg''
         then showMessage ''Please select a DXF or DWG file'' Error s0
         else
           (let s1 = clearMessages (hideNewButton s0)
            in case readFile env f s1 of
                 (Inl e, s2) \<Rightarrow> load_catch e s2
               | (Inr content, s2) \<Rightarrow>
                   (case open_and_report env f content s2 of
                      Inl (e, s3) \<Rightarrow> load_catch e s3
                    | Inr s3 \<Rightarrow> s3)))"

subsection \<open>The second version\<close>

text \<open>
  \<open>initializeViewer\<close>, lines 244 to 252, called once by the constructor: the runtime is
  created on the canvas, and a failure is logged and shown.
\<close>

definition initializeViewer :: "environment \<Rightarrow> app \<Rightarrow> app" where
  "initializeViewer env s =
     (case createInstance env ''canvas'' None None s of
        Inr s' \<Rightarrow> s'
      | Inl e \<Rightarrow>
          showMessage ''Failed to initialize CAD viewer'' Error
            (console_error (''Failed to initialize CAD viewer: '' @ e) s))"

definition showLoading :: "bool \<Rightarrow> app \<Rightarrow> app" where
  "showLoading sh s = s\<lparr>loading_display := (if sh then ''block'' else ''none'')\<rparr>"

text \<open>
  \<open>readFile\<close> of the second version, lines 351 to 365: a name ending in \<open>.dxf\<close> is
  read as text, one ending in \<open>.dwg\<close> as a buffer, and any other name rejects the
  promise without a read.
\<close>

definition readFile2 :: "environment \<Rightarrow> File \<Rightarrow> app \<Rightarrow> (string + fileContent) \<times> app" where
  "readFile2 env f s =
     (let fileName = toLowerCase (file_name f)
      in if endsWith fileName ''.dxf'' then
           (let s1 = s\<lparr>trace := trace s @ [ReadAsText (file_name f)]\<rparr>
            in case read_error env of
                 Some e \<Rightarrow> (Inl e, s1)
               | None \<Rightarrow> (Inr (Text (file_data f)), s1))
         else if endsWith fileName ''.dwg'' then
           (let s1 = s\<lparr>trace := trace s @ [ReadAsArrayBuffer (file_name f)]\<rparr>
            in case read_error env of
                 Some e \<Rightarrow> (Inl e, s1)
               | None \<Rightarrow> (Inr (ArrayBuffer (file_data f)), s1))
         else (Inl ''Error: Unsupported file type'', s))"

text \<open>\<open>loadFile\<close> of the second version, lines 299 to 349.\<close>

definition loadFile2 :: "environment \<Rightarrow> File \<Rightarrow> app \<Rightarrow> app" where
  "loadFile2 env f s =
     (case docManager s of
        None \<Rightarrow> showMessage ''CAD viewer not initialized'' Error s
      | Some m \<Rightarrow>
          (let fileName = toLowerCase (file_name f)
           in if \<not> endsWith fileName ''.dxf'' \<and> \<not> endsWith fileName ''.dwg''
              then showMessage ''Please select a DXF or DWG file'' Error s
              else
                (let s1 = clearMessages (showLoading True s)
                 in showLoading False
                      (case readFile2 env f s1 of
                         (Inl e, s2) \<Rightarrow> load_catch e s2
                       | (Inr content, s2) \<Rightarrow>
                           (case open_and_report env f content s2 of
                              Inl (e, s3) \<Rightarrow> load_catch e s3
                            | Inr s3 \<Rightarrow> s3)))))"

text \<open>What the claims read off a state.\<close>

definition popups :: "app \<Rightarrow> element list" where
  "popups s = filter is_popup (body s)"

fun is_read :: "call \<Rightarrow> bool" where
  "is_read (ReadAsArrayBuffer n) = True"
| "is_read (ReadAsText n) = True"
| "is_read c = False"

fun is_open :: "call \<Rightarrow> bool" where
  "is_open (OpenDocument n c opts) = True"
| "is_open c = False"

definition reads :: "app \<Rightarrow> call list" where
  "reads s = filter is_read (trace s)"

definition opens :: "app \<Rightarrow> call list" where
  "opens s = filter is_open (trace s)"


subsection \<open>The spec's file-name test, sample inputs and the events of the page\<close>

text \<open>
  The file-name test in the spec's words: a name ends in an extension, case-insensitively,
  when its last characters are those of the extension up to case. The source instead
  turns the whole name to lower case and compares with \<open>endsWith\<close>.
\<close>

definition ends_with_ci :: "string \<Rightarrow> string \<Rightarrow> bool" where
  "ends_with_ci n ext =
     (length ext \<le> length n \<and> toLowerCase (drop (length n - length ext) n) = toLowerCase ext)"

text \<open>The names the spec accepts: those ending in \<open>.dxf\<close> or \<open>.dwg\<close>.\<close>

definition accepted_name :: "string \<Rightarrow> bool" where
  "accepted_name n = (ends_with_ci n ''.dxf'' \<or> ends_with_ci n ''.dwg'')"

text \<open>
  The freshly loaded page: nothing initialized, no runtime instance, an empty body, the
  container, the button and its label present, no timer, an empty console and trace.
\<close>

definition start_app :: app where
  "start_app =
     \<lparr>isInitialized = False, docManager = None, body = [], next_id = 0,
      fileInputContainer = Some [], newDrawingButton_display = '''',
      newButtonLabel_display = Some '''', loading_display = ''none'', now = 0, timers = [],
      console = [], trace = []\<rparr>"

text \<open>Surroundings in which nothing fails and \<open>openDocument\<close> answers \<open>true\<close>.\<close>

definition env_ok :: environment where
  "env_ok = \<lparr>createInstance_error = None, initializeLocale_error = None,
     addCommand_error = None, read_error = None, openDocument_result = Inr True\<rparr>"

text \<open>Surroundings in which \<open>createInstance\<close> throws.\<close>

definition env_create_fails :: environment where
  "env_create_fails = \<lparr>createInstance_error = Some ''Error: WebGL is not available'',
     initializeLocale_error = None, addCommand_error = None, read_error = None,
     openDocument_result = Inr True\<rparr>"


text \<open>Surroundings in which the file reader fails.\<close>

definition env_read_fails :: environment where
  "env_read_fails = \<lparr>createInstance_error = None, initializeLocale_error = None,
     addCommand_error = None, read_error = Some ''NotReadableError'',
     openDocument_result = Inr True\<rparr>"

text \<open>Surroundings in which \<open>openDocument\<close> answers \<open>false\<close>.\<close>

definition env_open_false :: environment where
  "env_open_false = \<lparr>createInstance_error = None, initializeLocale_error = None,
     addCommand_error = None, read_error = None, openDocument_result = Inr False\<rparr>"

text \<open>Three files: a DXF drawing with an upper-case name, a DWG drawing and a text file.\<close>

definition plan_dxf :: File where
  "plan_dxf = \<lparr>file_name = ''Plan.DXF'', file_data = ''0 SECTION''\<rparr>"

definition site_dwg :: File where
  "site_dwg = \<lparr>file_name = ''site.dwg'', file_data = ''AC1027''\<rparr>"

definition notes_txt :: File where
  "notes_txt = \<lparr>file_name = ''notes.dxf.txt'', file_data = ''hello''\<rparr>"

text \<open>
  What can happen to the page, one event at a time: a file is chosen (either version),
  the application is initialized (either version), a message is shown or the messages
  are cleared, or the timer that is due next fires.
\<close>

inductive step :: "app \<Rightarrow> app \<Rightarrow> bool" where
  step_loadFile: "step s (loadFile env f s)"
| step_loadFile2: "step s (loadFile2 env f s)"
| step_initialize: "step s (initialize env s)"
| step_initializeViewer: "step s (initializeViewer env s)"
| step_showMessage: "step s (showMessage m ty s)"
| step_clearMessages: "step s (clearMessages s)"
| step_timer: "timers s = (due, f) # rest \<Longrightarrow>
     step s (fire f (s\<lparr>timers := rest, now := max (now s) due\<rparr>))"

text \<open>The states reached by such events from a page that holds no popup.\<close>

inductive reachable :: "app \<Rightarrow> bool" where
  reachable_start: "popups s = [] \<Longrightarrow> reachable s"
| reachable_step: "reachable s \<Longrightarrow> step s s' \<Longrightarrow> reachable s'"

text \<open>
  Every popup on the page is waited for by a timer: one that fades it out, or one that
  removes it.
\<close>

definition covered :: "app \<Rightarrow> bool" where
  "covered s = (\<forall>e \<in> set (body s). is_popup e \<longrightarrow>
      (\<exists>d. (d, FadeOut (el_id e)) \<in> set (timers s) \<or> (d, RemovePopup (el_id e)) \<in> set (timers s)))"

section \<open>Properties of the ellipse command\<close>

lemma vlength_zero_iff: "vlength v = 0 \<longleftrightarrow> vx v = 0 \<and> vy v = 0 \<and> vz v = 0"
proof -
  have "vx v * vx v + vy v * vy v + vz v * vz v = 0 \<longleftrightarrow> vx v = 0 \<and> vy v = 0 \<and> vz v = 0"
  proof
    assume h: "vx v * vx v + vy v * vy v + vz v * vz v = 0"
    have "0 \<le> vx v * vx v" "0 \<le> vy v * vy v" "0 \<le> vz v * vz v"
      by simp_all
    with h have "vx v * vx v = 0" "vy v * vy v = 0" "vz v * vz v = 0"
      by linarith+
    then show "vx v = 0 \<and> vy v = 0 \<and> vz v = 0"
      by simp
  qed simp
  then show ?thesis
    by (simp add: vlength_def)
qed

lemma execute_snd:
  "snd (execute answers ms) =
     ms @ [new_AcDbEllipse (answer_center answers) Z_AXIS
            (normalize_vec (new_AcGeVector3d
               (px (answer_majorAxisEndPoint answers) - px (answer_center answers))
               (py (answer_majorAxisEndPoint answers) - py (answer_center answers))
               (pz (answer_majorAxisEndPoint answers) - pz (answer_center answers))))
            (vlength (new_AcGeVector3d
               (px (answer_majorAxisEndPoint answers) - px (answer_center answers))
               (py (answer_majorAxisEndPoint answers) - py (answer_center answers))
               (pz (answer_majorAxisEndPoint answers) - pz (answer_center answers))))
            (answer_minorRadius answers) 0 (pi * 2)]"
  by (simp add: execute_def getDistance_def appendEntity_def Let_def)


lemma committed_eq:
  "committed answers ms =
     new_AcDbEllipse (answer_center answers) Z_AXIS
        (normalize_vec (new_AcGeVector3d
           (px (answer_majorAxisEndPoint answers) - px (answer_center answers))
           (py (answer_majorAxisEndPoint answers) - py (answer_center answers))
           (pz (answer_majorAxisEndPoint answers) - pz (answer_center answers))))
        (vlength (new_AcGeVector3d
           (px (answer_majorAxisEndPoint answers) - px (answer_center answers))
           (py (answer_majorAxisEndPoint answers) - py (answer_center answers))
           (pz (answer_majorAxisEndPoint answers) - pz (answer_center answers))))
        (answer_minorRadius answers) 0 (pi * 2)"
  by (simp add: committed_def execute_snd)

lemma vlength_diff:
  "vlength (new_AcGeVector3d (px q - px p) (py q - py p) (pz q - pz p)) =
     sqrt ((px q - px p)\<^sup>2 + (py q - py p)\<^sup>2 + (pz q - pz p)\<^sup>2)"
  by (simp add: vlength_def new_AcGeVector3d_def power2_eq_square)

lemma distinct_points_length:
  fixes p q :: AcGePoint3dLike
  assumes "q \<noteq> p"
  shows "vlength (new_AcGeVector3d (px q - px p) (py q - py p) (pz q - pz p)) \<noteq> 0"
proof
  assume "vlength (new_AcGeVector3d (px q - px p) (py q - py p) (pz q - pz p)) = 0"
  then have "px q = px p \<and> py q = py p \<and> pz q = pz p"
    by (simp add: vlength_zero_iff new_AcGeVector3d_def)
  then have "q = p"
    by simp
  with assms show False
    by simp
qed

lemma sqrt_10000: "sqrt 10000 = (100::real)"
  using real_sqrt_abs [of "100::real"] by simp

lemma ellipse_field_update:
  "ellipse_field (update r jig) = (ellipse_field jig)\<lparr>minorAxisRadius := r\<rparr>"
  by (simp add: update_def)

lemma foldl_update_frame:
  "ellipse_field (foldl (\<lambda>j v. update v j) jig vs)\<lparr>minorAxisRadius := r\<rparr> =
     (ellipse_field jig)\<lparr>minorAxisRadius := r\<rparr>"
  by (induction vs arbitrary: jig) (simp_all add: update_def)

text \<open>
  C1. For a centre \<open>P0\<close>, a major-axis end point \<open>P1\<close> distinct from \<open>P0\<close> and a
  committed minor radius \<open>r\<close>, \<open>execute\<close> appends exactly one entity to the model
  space. That ellipse has centre \<open>P0\<close>, the library's Z axis as normal, the vector \<open>P1 - P0\<close>
  divided by its length as major-axis direction, the length of \<open>P1 - P0\<close> as major
  radius, \<open>r\<close> as minor radius, and the sweep from \<open>0\<close> to \<open>2\<pi>\<close>.
\<close>

theorem execute_appends_ellipse:
  assumes "answer_majorAxisEndPoint a \<noteq> answer_center a"
  defines "P0 \<equiv> answer_center a" and "P1 \<equiv> answer_majorAxisEndPoint a"
  defines "d \<equiv> sqrt ((px P1 - px P0)\<^sup>2 + (py P1 - py P0)\<^sup>2 + (pz P1 - pz P0)\<^sup>2)"
  shows "snd (execute a ms) = ms @ [committed a ms]
    \<and> center (committed a ms) = P0
    \<and> normal (committed a ms) = Z_AXIS
    \<and> majorAxis (committed a ms) =
        Some \<lparr>vx = (px P1 - px P0) / d, vy = (py P1 - py P0) / d, vz = (pz P1 - pz P0) / d\<rparr>
    \<and> majorAxisRadius (committed a ms) = d
    \<and> minorAxisRadius (committed a ms) = answer_minorRadius a
    \<and> startAngle (committed a ms) = 0
    \<and> endAngle (committed a ms) = 2 * pi"
proof -
  let ?V = "new_AcGeVector3d (px P1 - px P0) (py P1 - py P0) (pz P1 - pz P0)"
  have len: "vlength ?V = d"
    unfolding d_def by (rule vlength_diff)
  have nz: "vlength ?V \<noteq> 0"
    using assms(1) unfolding P0_def P1_def by (rule distinct_points_length)
  have dir: "normalize_vec ?V =
      Some \<lparr>vx = (px P1 - px P0) / d, vy = (py P1 - py P0) / d, vz = (pz P1 - pz P0) / d\<rparr>"
    using nz len by (simp add: normalize_vec_def) (simp add: new_AcGeVector3d_def)
  have c: "committed a ms = new_AcDbEllipse P0 Z_AXIS (normalize_vec ?V) (vlength ?V)
      (answer_minorRadius a) 0 (pi * 2)"
    unfolding P0_def P1_def by (rule committed_eq)
  have s: "snd (execute a ms) = ms @ [committed a ms]"
    by (simp add: committed_def execute_snd)
  show ?thesis
    using s by (simp add: c dir len new_AcDbEllipse_def Z_AXIS_def)
qed

text \<open>
  The instance of the spec: centre \<open>(0,0,0)\<close>, major end point \<open>(0,100,0)\<close>, minor
  radius \<open>25\<close> give major radius \<open>100\<close>, minor radius \<open>25\<close>, direction
  \<open>(0,1,0)\<close>.
\<close>

theorem execute_appends_ellipse_witness:
  "\<lparr>px = 0, py = 100, pz = 0\<rparr> \<noteq> \<lparr>px = 0, py = 0, pz = (0::real)\<rparr>
   \<and> snd (execute \<lparr>answer_center = \<lparr>px = 0, py = 0, pz = 0\<rparr>,
              answer_majorAxisEndPoint = \<lparr>px = 0, py = 100, pz = 0\<rparr>,
              answer_candidates = [60, 30], answer_minorRadius = 25\<rparr> [])
      = [\<lparr>center = \<lparr>px = 0, py = 0, pz = 0\<rparr>, normal = \<lparr>vx = 0, vy = 0, vz = 1\<rparr>,
          majorAxis = Some \<lparr>vx = 0, vy = 1, vz = 0\<rparr>, majorAxisRadius = 100,
          minorAxisRadius = 25, startAngle = 0, endAngle = 2 * pi\<rparr>]"
proof -
  let ?a = "\<lparr>answer_center = \<lparr>px = 0, py = 0, pz = 0\<rparr>,
              answer_majorAxisEndPoint = \<lparr>px = 0, py = 100, pz = 0\<rparr>,
              answer_candidates = [60, 30], answer_minorRadius = 25\<rparr>"
  have h: "answer_majorAxisEndPoint ?a \<noteq> answer_center ?a"
    by simp
  have e: "committed ?a [] = \<lparr>center = \<lparr>px = 0, py = 0, pz = 0\<rparr>, normal = \<lparr>vx = 0, vy = 0, vz = 1\<rparr>,
          majorAxis = Some \<lparr>vx = 0, vy = 1, vz = 0\<rparr>, majorAxisRadius = 100,
          minorAxisRadius = 25, startAngle = 0, endAngle = 2 * pi\<rparr>"
    using execute_appends_ellipse [OF h, of "[]"]
    by (cases "committed ?a []") (simp add: sqrt_10000 Z_AXIS_def)
  show ?thesis
    using execute_appends_ellipse [OF h, of "[]"] e by simp
qed

text \<open>
  C2 as the spec states it: when the major-axis end point equals the centre, the
  construction fails with a defined error. The code has no such check. At centre and
  end point \<open>(0,0,0)\<close> and minor radius \<open>25\<close> the command completes and appends an
  ellipse of major radius \<open>0\<close> whose major-axis direction is the undefined one.
\<close>

theorem execute_degenerate_counterexample:
  "snd (execute \<lparr>answer_center = \<lparr>px = 0, py = 0, pz = 0\<rparr>,
              answer_majorAxisEndPoint = \<lparr>px = 0, py = 0, pz = 0\<rparr>,
              answer_candidates = [], answer_minorRadius = 25\<rparr> [])
      = [\<lparr>center = \<lparr>px = 0, py = 0, pz = 0\<rparr>, normal = \<lparr>vx = 0, vy = 0, vz = 1\<rparr>,
          majorAxis = None, majorAxisRadius = 0,
          minorAxisRadius = 25, startAngle = 0, endAngle = 2 * pi\<rparr>]"
  by (simp add: execute_snd new_AcDbEllipse_def new_AcGeVector3d_def normalize_vec_def
      vlength_def Z_AXIS_def)

text \<open>
  C2 as amended: when the major-axis end point equals the centre, \<open>execute\<close> raises
  no error of its own. It still appends one ellipse, with the centre, the Z axis as
  normal, major radius \<open>0\<close>, the prompted minor radius, the full sweep, and as
  major-axis direction whatever \<open>normalize\<close> gives for the zero vector (the undefined
  direction of the spec).
\<close>

theorem execute_degenerate_no_error:
  assumes "answer_majorAxisEndPoint a = answer_center a"
  shows "snd (execute a ms) =
     ms @ [\<lparr>center = answer_center a, normal = Z_AXIS,
             majorAxis = normalize_vec \<lparr>vx = 0, vy = 0, vz = 0\<rparr>, majorAxisRadius = 0,
             minorAxisRadius = answer_minorRadius a, startAngle = 0, endAngle = 2 * pi\<rparr>]
    \<and> normalize_vec \<lparr>vx = 0, vy = 0, vz = 0\<rparr> = None"
  using assms
  by (simp add: execute_snd new_AcDbEllipse_def new_AcGeVector3d_def normalize_vec_def
      vlength_def)

theorem execute_degenerate_no_error_witness:
  "snd (execute \<lparr>answer_center = \<lparr>px = 3, py = 4, pz = 0\<rparr>,
              answer_majorAxisEndPoint = \<lparr>px = 3, py = 4, pz = 0\<rparr>,
              answer_candidates = [7], answer_minorRadius = 2\<rparr> [])
      = [\<lparr>center = \<lparr>px = 3, py = 4, pz = 0\<rparr>, normal = \<lparr>vx = 0, vy = 0, vz = 1\<rparr>,
          majorAxis = None, majorAxisRadius = 0,
          minorAxisRadius = 2, startAngle = 0, endAngle = 2 * pi\<rparr>]"
proof -
  let ?a = "\<lparr>answer_center = \<lparr>px = 3, py = 4, pz = 0\<rparr>,
              answer_majorAxisEndPoint = \<lparr>px = 3, py = 4, pz = 0\<rparr>,
              answer_candidates = [7], answer_minorRadius = 2\<rparr>"
  have h: "answer_majorAxisEndPoint ?a = answer_center ?a"
    by simp
  show ?thesis
    using execute_degenerate_no_error [OF h, of "[]"] by (simp add: Z_AXIS_def)
qed

text \<open>
  C7. For every candidate value \<open>v\<close>, \<open>update v\<close> sets the minor-axis radius of the
  preview ellipse to \<open>v\<close> and changes nothing else: centre, normal, major-axis
  direction, major-axis radius and the two angles of the sweep stay as they were.
\<close>

theorem update_changes_only_minor_radius:
  "entity (update v jig) = (entity jig)\<lparr>minorAxisRadius := v\<rparr>
   \<and> minorAxisRadius (entity (update v jig)) = v
   \<and> center (entity (update v jig)) = center (entity jig)
   \<and> normal (entity (update v jig)) = normal (entity jig)
   \<and> majorAxis (entity (update v jig)) = majorAxis (entity jig)
   \<and> majorAxisRadius (entity (update v jig)) = majorAxisRadius (entity jig)
   \<and> startAngle (entity (update v jig)) = startAngle (entity jig)
   \<and> endAngle (entity (update v jig)) = endAngle (entity jig)"
  by (simp add: update_def entity_def)

text \<open>
  C8. Before any \<open>update\<close>, the preview ellipse of a new jig has its minor-axis radius
  equal to its major-axis radius, both the length of \<open>P1 - P0\<close>: the first preview is
  a circle.
\<close>

theorem new_jig_is_circle:
  "minorAxisRadius (entity (new_AcApEllipseJig P0 P1)) =
      majorAxisRadius (entity (new_AcApEllipseJig P0 P1))
   \<and> majorAxisRadius (entity (new_AcApEllipseJig P0 P1)) =
      sqrt ((px P1 - px P0)\<^sup>2 + (py P1 - py P0)\<^sup>2 + (pz P1 - pz P0)\<^sup>2)"
  by (simp add: new_AcApEllipseJig_def entity_def new_AcDbEllipse_def Let_def vlength_diff)

text \<open>
  C9. The ellipse that \<open>execute\<close> commits is the preview ellipse of the jig after
  \<open>update r\<close>, for the committed minor radius \<open>r\<close>: of a jig newly made from the same
  centre and end point, and also of the jig of the prompt, whatever candidates it was
  shown before. The two are computed separately and agree in every field.
\<close>

theorem committed_equals_preview:
  "committed a ms =
      entity (update (answer_minorRadius a)
        (new_AcApEllipseJig (answer_center a) (answer_majorAxisEndPoint a)))
   \<and> committed a ms = entity (update (answer_minorRadius a) (fst (execute a ms)))"
proof -
  have fresh: "committed a ms =
      entity (update (answer_minorRadius a)
        (new_AcApEllipseJig (answer_center a) (answer_majorAxisEndPoint a)))"
    by (simp add: committed_eq update_def entity_def new_AcApEllipseJig_def
        new_AcDbEllipse_def Let_def)
  have "fst (execute a ms) =
      foldl (\<lambda>j v. update v j) (new_AcApEllipseJig (answer_center a) (answer_majorAxisEndPoint a))
        (answer_candidates a)"
    by (simp add: execute_def getDistance_def Let_def)
  then have "entity (update (answer_minorRadius a) (fst (execute a ms))) =
      entity (update (answer_minorRadius a)
        (new_AcApEllipseJig (answer_center a) (answer_majorAxisEndPoint a)))"
    by (simp only: entity_def ellipse_field_update foldl_update_frame)
  with fresh show ?thesis
    by simp
qed

section \<open>Properties of the viewer application\<close>

declare run_timers.simps [simp del]

lemma endsWith_lower_ci:
  "toLowerCase ext = ext \<Longrightarrow> endsWith (toLowerCase n) ext \<longleftrightarrow> ends_with_ci n ext"
  by (auto simp: endsWith_def ends_with_ci_def toLowerCase_def drop_map)

lemma lower_dxf: "toLowerCase ''.dxf'' = ''.dxf''" "toLowerCase ''.dwg'' = ''.dwg''"
  by (simp_all add: toLowerCase_def)

lemma valid_iff:
  "(\<not> endsWith (toLowerCase n) ''.dxf'' \<and> \<not> endsWith (toLowerCase n) ''.dwg'') \<longleftrightarrow> \<not> accepted_name n"
  by (simp add: accepted_name_def endsWith_lower_ci lower_dxf)

lemma set_enqueue: "set (enqueue t ts) = insert t (set ts)"
  by (induction ts) auto

lemma popups_showMessage: "popups (showMessage m ty s) = [new_popup (next_id s) m ty]"
  by (simp add: popups_def showMessage_def clearMessages_def setTimeout_def Let_def new_popup_def is_popup_def)

lemma trace_showMessage: "trace (showMessage m ty s) = trace s"
  by (simp add: showMessage_def clearMessages_def setTimeout_def Let_def)

lemma docManager_showMessage: "docManager (showMessage m ty s) = docManager s"
  by (simp add: showMessage_def clearMessages_def setTimeout_def Let_def)


lemma timers_showMessage:
  "timers (showMessage m ty s) = enqueue (now s + 1000, FadeOut (next_id s)) (timers s)"
  by (simp add: showMessage_def clearMessages_def setTimeout_def Let_def new_popup_def)

lemma is_popup_set_style: "is_popup (set_style k v e) = is_popup e"
  by (simp add: is_popup_def set_style_def)

lemma el_id_set_style: "el_id (set_style k v e) = el_id e"
  by (simp add: set_style_def)

lemma covered_fire:
  assumes "covered s" "timers s = (due, f) # rest"
  shows "covered (fire f (s\<lparr>timers := rest, now := max (now s) due\<rparr>))"
proof (cases f)
  case (FadeOut i)
  show ?thesis
    unfolding covered_def
  proof (intro ballI impI)
    fix e
    assume e: "e \<in> set (body (fire f (s\<lparr>timers := rest, now := max (now s) due\<rparr>)))" and p: "is_popup e"
    from e FadeOut obtain e0 where e0: "e0 \<in> set (body s)"
      and ee: "e = (if el_id e0 = i then set_style ''opacity'' ''0'' e0 else e0)"
      by (auto simp: setTimeout_def)
    have id: "el_id e = el_id e0" and p0: "is_popup e0"
      using ee p by (auto simp: el_id_set_style is_popup_set_style split: if_splits)
    from assms(1) e0 p0 obtain d where
      d: "(d, FadeOut (el_id e0)) \<in> set (timers s) \<or> (d, RemovePopup (el_id e0)) \<in> set (timers s)"
      unfolding covered_def by blast
    show "\<exists>d. (d, FadeOut (el_id e)) \<in> set (timers (fire f (s\<lparr>timers := rest, now := max (now s) due\<rparr>)))
          \<or> (d, RemovePopup (el_id e)) \<in> set (timers (fire f (s\<lparr>timers := rest, now := max (now s) due\<rparr>)))"
    proof (cases "el_id e0 = i")
      case True
      then show ?thesis
        using FadeOut id by (auto simp: setTimeout_def set_enqueue)
    next
      case False
      with d assms(2) FadeOut have
        "(d, FadeOut (el_id e0)) \<in> set rest \<or> (d, RemovePopup (el_id e0)) \<in> set rest"
        by auto
      then show ?thesis
        using FadeOut id by (auto simp: setTimeout_def set_enqueue)
    qed
  qed
next
  case (RemovePopup i)
  show ?thesis
    unfolding covered_def
  proof (intro ballI impI)
    fix e
    assume e: "e \<in> set (body (fire f (s\<lparr>timers := rest, now := max (now s) due\<rparr>)))" and p: "is_popup e"
    from e RemovePopup have e0: "e \<in> set (body s)" and ne: "el_id e \<noteq> i"
      by auto
    from assms(1) e0 p obtain d where
      d: "(d, FadeOut (el_id e)) \<in> set (timers s) \<or> (d, RemovePopup (el_id e)) \<in> set (timers s)"
      unfolding covered_def by blast
    with assms(2) RemovePopup ne have
      "(d, FadeOut (el_id e)) \<in> set rest \<or> (d, RemovePopup (el_id e)) \<in> set rest"
      by auto
    then show "\<exists>d. (d, FadeOut (el_id e)) \<in> set (timers (fire f (s\<lparr>timers := rest, now := max (now s) due\<rparr>)))
          \<or> (d, RemovePopup (el_id e)) \<in> set (timers (fire f (s\<lparr>timers := rest, now := max (now s) due\<rparr>)))"
      using RemovePopup by auto
  qed
qed

lemma run_timers_dismisses: "covered s \<Longrightarrow> popups (run_timers s) = []"
proof (induction s rule: run_timers.induct)
  case (1 s)
  show ?case
  proof (cases "timers s")
    case Nil
    with "1.prems" have "\<forall>e \<in> set (body s). \<not> is_popup e"
      unfolding covered_def by auto
    then have "filter is_popup (body s) = []"
      by (simp add: filter_empty_conv)
    with Nil show ?thesis
      by (simp add: run_timers.simps [of s] popups_def)
  next
    case (Cons t rest)
    obtain due f where t: "t = (due, f)"
      by (cases t)
    have "covered (fire f (s\<lparr>timers := rest, now := max (now s) due\<rparr>))"
      using "1.prems" Cons t by (simp add: covered_fire)
    then have "popups (run_timers (fire f (s\<lparr>timers := rest, now := max (now s) due\<rparr>))) = []"
      using "1.IH" Cons t by simp
    then show ?thesis
      using Cons t by (simp add: run_timers.simps [of s])
  qed
qed

lemma covered_showMessage: "covered (showMessage m ty s)"
  unfolding covered_def
proof (intro ballI impI)
  fix e
  assume "e \<in> set (body (showMessage m ty s))" "is_popup e"
  then have "e \<in> set (popups (showMessage m ty s))"
    by (simp add: popups_def)
  then have "el_id e = next_id s"
    by (simp add: popups_showMessage new_popup_def)
  then show "\<exists>d. (d, FadeOut (el_id e)) \<in> set (timers (showMessage m ty s))
      \<or> (d, RemovePopup (el_id e)) \<in> set (timers (showMessage m ty s))"
    by (auto simp: timers_showMessage set_enqueue)
qed

lemma showMessage_transient: "popups (run_timers (showMessage m ty s)) = []"
  by (rule run_timers_dismisses [OF covered_showMessage])


lemma trace_initialize_try:
  "initialize_try env s = Inr s' \<Longrightarrow>
     trace s' = trace s @ [CreateInstance, InitializeLocale,
        AddCommand ''SYSTEMT_COMMAND_GROUP_NAME'' ''ellipse'' ''ellipse'']"
  by (auto simp: initialize_try_def createInstance_def initializeLocale_def registerCommands_def
      split: option.splits sum.splits)

lemma trace_initialize_try_fail:
  "initialize_try env s = Inl (e, s') \<Longrightarrow>
     trace s' = trace s \<or> trace s' = trace s @ [CreateInstance]
     \<or> trace s' = trace s @ [CreateInstance, InitializeLocale]"
  by (auto simp: initialize_try_def createInstance_def initializeLocale_def registerCommands_def
      split: option.splits sum.splits)


lemma trace_console_error: "trace (console_error m s) = trace s"
  by (simp add: console_error_def)

lemma trace_initialize_cases:
  "trace (initialize env s) = trace s
   \<or> trace (initialize env s) = trace s @ [CreateInstance]
   \<or> trace (initialize env s) = trace s @ [CreateInstance, InitializeLocale]
   \<or> trace (initialize env s) = trace s @ [CreateInstance, InitializeLocale,
        AddCommand ''SYSTEMT_COMMAND_GROUP_NAME'' ''ellipse'' ''ellipse'']"
proof (cases "isInitialized s")
  case True
  then show ?thesis by (simp add: initialize_def)
next
  case False
  show ?thesis
  proof (cases "initialize_try env s")
    case (Inl a)
    obtain e s' where a: "a = (e, s')" by (cases a)
    have "trace (initialize env s) = trace s'"
      using False Inl a by (simp add: initialize_def trace_showMessage trace_console_error)
    with trace_initialize_try_fail [of env s e s'] Inl a show ?thesis
      by auto
  next
    case (Inr s')
    have "trace (initialize env s) = trace s'"
      using False Inr by (simp add: initialize_def)
    with trace_initialize_try [OF Inr] show ?thesis
      by simp
  qed
qed

lemma reads_initialize: "reads (initialize env s) = reads s"
  using trace_initialize_cases [of env s] by (auto simp: reads_def)

lemma opens_initialize: "opens (initialize env s) = opens s"
  using trace_initialize_cases [of env s] by (auto simp: opens_def)








lemma initialize_start:
  "initialize env_ok start_app =
     start_app\<lparr>isInitialized := True,
       docManager := Some \<lparr>container = ''cad-container'', autoResize = Some True,
          baseUrl = Some ''https://cdn.jsdelivr.net/gh/mlightcad/cad-data@main/'',
          commands = [(''SYSTEMT_COMMAND_GROUP_NAME'', ''ellipse'', ''ellipse'')]\<rparr>,
       trace := [CreateInstance, InitializeLocale,
          AddCommand ''SYSTEMT_COMMAND_GROUP_NAME'' ''ellipse'' ''ellipse'']\<rparr>"
  by (simp add: initialize_def initialize_try_def createInstance_def initializeLocale_def
      registerCommands_def env_ok_def start_app_def)


lemma trace_frame:
  "trace (clearMessages s) = trace s"
  "trace (hideNewButton s) = trace s"
  "trace (add_loaded s) = trace s"
  "trace (showLoading b s) = trace s"
  "trace (load_catch e s) = trace s"
  by (simp_all add: clearMessages_def hideNewButton_def add_loaded_def showLoading_def
      load_catch_def trace_showMessage console_error_def)

lemma docManager_frame:
  "docManager (clearMessages s) = docManager s"
  "docManager (hideNewButton s) = docManager s"
  "docManager (add_loaded s) = docManager s"
  "docManager (showLoading b s) = docManager s"
  by (simp_all add: clearMessages_def hideNewButton_def add_loaded_def showLoading_def)

lemma popups_load_catch:
  "map textContent (popups (load_catch e s)) = [''Error loading file: '' @ e]"
  "map classList (popups (load_catch e s)) = [[''popup-message'', ''error'']]"
  by (simp_all add: load_catch_def popups_showMessage new_popup_def)

text \<open>The four ways \<open>loadFile\<close> ends once the name has passed the test.\<close>

lemma loadFile_invalid:
  "\<not> accepted_name (file_name f) \<Longrightarrow>
     loadFile env f s = showMessage ''Please select a DXF or DWG file'' Error (initialize env s)"
  by (simp add: loadFile_def Let_def valid_iff)

lemma loadFile_read_error:
  assumes "accepted_name (file_name f)" "read_error env = Some e"
  shows "loadFile env f s =
     load_catch e ((clearMessages (hideNewButton (initialize env s)))
       \<lparr>trace := trace (initialize env s) @ [ReadAsArrayBuffer (file_name f)]\<rparr>)"
  using assms
  by (simp add: loadFile_def Let_def valid_iff readFile_def trace_frame)

lemma loadFile_no_instance:
  assumes "accepted_name (file_name f)" "read_error env = None"
    "docManager (initialize env s) = None"
  shows "loadFile env f s =
     load_catch ''TypeError: AcApDocManager.instance is undefined''
       (add_loaded ((clearMessages (hideNewButton (initialize env s)))
          \<lparr>trace := trace (initialize env s) @ [ReadAsArrayBuffer (file_name f)]\<rparr>))"
  using assms
  by (simp add: loadFile_def Let_def valid_iff readFile_def trace_frame open_and_report_def
      openDocument_def docManager_frame add_loaded_def)

lemma loadFile_opened:
  assumes "accepted_name (file_name f)" "read_error env = None"
    "docManager (initialize env s) = Some m"
  defines "s3 \<equiv> (add_loaded ((clearMessages (hideNewButton (initialize env s)))
          \<lparr>trace := trace (initialize env s) @ [ReadAsArrayBuffer (file_name f)]\<rparr>))
        \<lparr>trace := trace (initialize env s) @ [ReadAsArrayBuffer (file_name f),
            OpenDocument (file_name f) (ArrayBuffer (file_data f))
              \<lparr>minimumChunkSize = 1000, readOnly = True\<rparr>]\<rparr>"
  shows "loadFile env f s =
     (case openDocument_result env of
        Inl e \<Rightarrow> load_catch e s3
      | Inr ok \<Rightarrow>
          if ok then showMessage (''Successfully loaded: '' @ file_name f) Success s3
          else showMessage (''Failed to load: '' @ file_name f) Error s3)"
  using assms(1-3) unfolding s3_def
  by (simp add: loadFile_def Let_def valid_iff readFile_def trace_frame open_and_report_def
      openDocument_def docManager_frame add_loaded_def split: sum.splits)

lemma loadFile_is_message: "\<exists>m ty s'. loadFile env f s = showMessage m ty s'"
proof (cases "accepted_name (file_name f)")
  case False
  then show ?thesis
    using loadFile_invalid by blast
next
  case True
  show ?thesis
  proof (cases "read_error env")
    case (Some e)
    show ?thesis
      unfolding loadFile_read_error [OF True Some] load_catch_def by blast
  next
    case None
    show ?thesis
    proof (cases "docManager (initialize env s)")
      case N: None
      show ?thesis
        unfolding loadFile_no_instance [OF True None N] load_catch_def by blast
    next
      case (Some m)
      show ?thesis
        unfolding loadFile_opened [OF True None Some] load_catch_def
        by (cases "openDocument_result env") auto
    qed
  qed
qed

lemma reads_loadFile:
  "reads (loadFile env f s) =
     reads s @ (if accepted_name (file_name f) then [ReadAsArrayBuffer (file_name f)] else [])"
proof (cases "accepted_name (file_name f)")
  case False
  then show ?thesis
    by (simp add: loadFile_invalid reads_def trace_showMessage reads_initialize [unfolded reads_def])
next
  case True
  have i: "filter is_read (trace (initialize env s)) = filter is_read (trace s)"
    using reads_initialize [of env s] by (simp add: reads_def)
  show ?thesis
  proof (cases "read_error env")
    case (Some e)
    show ?thesis
      using True i by (simp add: loadFile_read_error [OF True Some] reads_def trace_frame)
  next
    case None
    show ?thesis
    proof (cases "docManager (initialize env s)")
      case N: None
      show ?thesis
        using True i by (simp add: loadFile_no_instance [OF True None N] reads_def trace_frame)
    next
      case (Some m)
      show ?thesis
        using True i
        by (cases "openDocument_result env")
          (simp_all add: loadFile_opened [OF True None Some] reads_def trace_frame trace_showMessage)
    qed
  qed
qed

lemma opens_loadFile_le: "length (opens (loadFile env f s)) \<le> Suc (length (opens s))"
proof (cases "accepted_name (file_name f)")
  case False
  then show ?thesis
    by (simp add: loadFile_invalid opens_def trace_showMessage opens_initialize [unfolded opens_def])
next
  case True
  have i: "filter is_open (trace (initialize env s)) = filter is_open (trace s)"
    using opens_initialize [of env s] by (simp add: opens_def)
  show ?thesis
  proof (cases "read_error env")
    case (Some e)
    show ?thesis
      using True i by (simp add: loadFile_read_error [OF True Some] opens_def trace_frame)
  next
    case None
    show ?thesis
    proof (cases "docManager (initialize env s)")
      case N: None
      show ?thesis
        using True i by (simp add: loadFile_no_instance [OF True None N] opens_def trace_frame)
    next
      case (Some m)
      show ?thesis
        using True i
        by (cases "openDocument_result env")
          (simp_all add: loadFile_opened [OF True None Some] opens_def trace_frame trace_showMessage)
    qed
  qed
qed

lemma popups_frame:
  "popups (showLoading b s) = popups s"
  "popups (console_error e s) = popups s"
  "popups (add_loaded s) = popups s"
  "popups (hideNewButton s) = popups s"
  by (simp_all add: popups_def showLoading_def console_error_def add_loaded_def hideNewButton_def)

lemma popups_clearMessages: "popups (clearMessages s) = []"
  by (simp add: popups_def clearMessages_def)

lemma dwg_not_dxf: "ends_with_ci n ''.dwg'' \<Longrightarrow> \<not> ends_with_ci n ''.dxf''"
  by (auto simp: ends_with_ci_def lower_dxf)

lemma name_tests:
  "endsWith (toLowerCase n) ''.dxf'' = ends_with_ci n ''.dxf''"
  "endsWith (toLowerCase n) ''.dwg'' = ends_with_ci n ''.dwg''"
  by (simp_all add: endsWith_lower_ci lower_dxf)

lemma loadFile2_no_instance:
  "docManager s = None \<Longrightarrow> loadFile2 env f s = showMessage ''CAD viewer not initialized'' Error s"
  by (simp add: loadFile2_def)

lemma loadFile2_invalid:
  "docManager s = Some m \<Longrightarrow> \<not> accepted_name (file_name f) \<Longrightarrow>
     loadFile2 env f s = showMessage ''Please select a DXF or DWG file'' Error s"
  by (simp add: loadFile2_def Let_def valid_iff)

lemma readFile2_trace:
  "trace (snd (readFile2 env f s)) =
     trace s @ (if ends_with_ci (file_name f) ''.dxf'' then [ReadAsText (file_name f)]
                else if ends_with_ci (file_name f) ''.dwg'' then [ReadAsArrayBuffer (file_name f)]
                else [])"
  by (simp add: readFile2_def Let_def name_tests split: option.splits)

lemma readFile2_docManager: "docManager (snd (readFile2 env f s)) = docManager s"
  by (simp add: readFile2_def Let_def split: option.splits)

lemma open_and_report_trace:
  "trace (case open_and_report env f c s of Inl (e, s3) \<Rightarrow> load_catch e s3 | Inr s3 \<Rightarrow> s3) =
     trace s @ (case docManager s of None \<Rightarrow> []
                | Some m \<Rightarrow> [OpenDocument (file_name f) c \<lparr>minimumChunkSize = 1000, readOnly = True\<rparr>])"
  by (simp add: open_and_report_def openDocument_def Let_def trace_frame docManager_frame
      trace_showMessage split: option.splits sum.splits)

lemma loadFile2_valid:
  assumes "docManager s = Some m" "accepted_name (file_name f)"
  shows "loadFile2 env f s =
     showLoading False
       (case readFile2 env f (clearMessages (showLoading True s)) of
          (Inl e, s2) \<Rightarrow> load_catch e s2
        | (Inr content, s2) \<Rightarrow>
            (case open_and_report env f content s2 of
               Inl (e, s3) \<Rightarrow> load_catch e s3
             | Inr s3 \<Rightarrow> s3))"
  using assms by (simp add: loadFile2_def Let_def valid_iff)

lemma reads_loadFile2:
  assumes "docManager s = Some m"
  shows "reads (loadFile2 env f s) =
     reads s @ (if ends_with_ci (file_name f) ''.dxf'' then [ReadAsText (file_name f)]
                else if ends_with_ci (file_name f) ''.dwg'' then [ReadAsArrayBuffer (file_name f)]
                else [])"
proof (cases "accepted_name (file_name f)")
  case False
  then show ?thesis
    using assms by (simp add: loadFile2_invalid reads_def trace_showMessage accepted_name_def)
next
  case True
  obtain r s2 where r: "readFile2 env f (clearMessages (showLoading True s)) = (r, s2)"
    by (cases "readFile2 env f (clearMessages (showLoading True s))")
  have t: "trace s2 = trace s @
      (if ends_with_ci (file_name f) ''.dxf'' then [ReadAsText (file_name f)]
       else if ends_with_ci (file_name f) ''.dwg'' then [ReadAsArrayBuffer (file_name f)]
       else [])"
    using readFile2_trace [of env f "clearMessages (showLoading True s)"] r
    by (simp add: trace_frame)
  show ?thesis
  proof (cases r)
    case (Inl e)
    then show ?thesis
      using t r by (simp add: loadFile2_valid [OF assms True] reads_def trace_frame)
  next
    case (Inr c)
    then show ?thesis
      using t r open_and_report_trace [of env f c s2]
      by (auto simp: loadFile2_valid [OF assms True] reads_def trace_frame split: option.splits)
  qed
qed

lemma opens_loadFile_invalid:
  "\<not> accepted_name (file_name f) \<Longrightarrow> opens (loadFile env f s) = opens s"
  using opens_initialize [of env s]
  by (simp add: loadFile_invalid opens_def trace_showMessage)

lemma readFile2_ok:
  assumes "accepted_name (file_name f)" "read_error env = None"
  shows "fst (readFile2 env f s) =
     Inr (if ends_with_ci (file_name f) ''.dxf'' then Text (file_data f)
          else ArrayBuffer (file_data f))"
proof (cases "ends_with_ci (file_name f) ''.dxf''")
  case True
  then show ?thesis
    using assms(2) by (simp add: readFile2_def Let_def name_tests)
next
  case False
  with assms(1) have "ends_with_ci (file_name f) ''.dwg''"
    by (simp add: accepted_name_def)
  with False show ?thesis
    using assms(2) by (simp add: readFile2_def Let_def name_tests)
qed

lemma opens_loadFile2:
  assumes "docManager s = Some m" "accepted_name (file_name f)" "read_error env = None"
  shows "opens (loadFile2 env f s) =
     opens s @ [OpenDocument (file_name f)
        (if ends_with_ci (file_name f) ''.dxf'' then Text (file_data f)
         else ArrayBuffer (file_data f))
        \<lparr>minimumChunkSize = 1000, readOnly = True\<rparr>]"
proof -
  let ?s1 = "clearMessages (showLoading True s)"
  let ?c = "if ends_with_ci (file_name f) ''.dxf'' then Text (file_data f)
         else ArrayBuffer (file_data f)"
  obtain s2 where r: "readFile2 env f ?s1 = (Inr ?c, s2)"
    using readFile2_ok [OF assms(2,3), of ?s1] by (cases "readFile2 env f ?s1") simp
  have t: "trace s2 = trace s @
      (if ends_with_ci (file_name f) ''.dxf'' then [ReadAsText (file_name f)]
       else [ReadAsArrayBuffer (file_name f)])"
    using readFile2_trace [of env f ?s1] r assms(2)
    by (auto simp: trace_frame accepted_name_def)
  have d: "docManager s2 = Some m"
    using readFile2_docManager [of env f ?s1] r assms(1) by (simp add: docManager_frame)
  show ?thesis
    using t r d open_and_report_trace [of env f ?c s2]
    by (simp add: loadFile2_valid [OF assms(1,2)] opens_def trace_frame)
qed

lemma opens_loadFile:
  assumes "accepted_name (file_name f)" "read_error env = None"
    "docManager (initialize env s) = Some m"
  shows "opens (loadFile env f s) =
     opens s @ [OpenDocument (file_name f) (ArrayBuffer (file_data f))
        \<lparr>minimumChunkSize = 1000, readOnly = True\<rparr>]"
  using opens_initialize [of env s]
  by (cases "openDocument_result env")
    (simp_all add: loadFile_opened [OF assms] opens_def trace_frame trace_showMessage)

text \<open>
  C3 as the spec states it fails in the second version: with no runtime instance,
  \<open>loadFile\<close> turns away a file named \<open>Plan.DXF\<close> with the message that the viewer is
  not initialized. The state is the one \<open>initializeViewer\<close> leaves when
  \<open>createInstance\<close> throws.
\<close>

theorem loadFile2_rejects_dxf_counterexample:
  "accepted_name (file_name plan_dxf)
   \<and> reads (loadFile2 env_ok plan_dxf (initializeViewer env_create_fails start_app)) = []
   \<and> map textContent (popups (loadFile2 env_ok plan_dxf (initializeViewer env_create_fails start_app)))
       = [''CAD viewer not initialized'']"
proof -
  have d: "docManager (initializeViewer env_create_fails start_app) = None"
    by (simp add: initializeViewer_def createInstance_def env_create_fails_def
        docManager_showMessage console_error_def start_app_def)
  have t: "trace (initializeViewer env_create_fails start_app) = []"
    by (simp add: initializeViewer_def createInstance_def env_create_fails_def
        trace_showMessage console_error_def start_app_def)
  have a: "accepted_name (file_name plan_dxf)"
    by (simp add: accepted_name_def ends_with_ci_def plan_dxf_def toLowerCase_def)
  show ?thesis
    using a t by (simp add: loadFile2_no_instance [OF d] reads_def trace_showMessage
        popups_showMessage new_popup_def)
qed

text \<open>
  C3 as amended. A name is accepted when its last four characters are \<open>.dxf\<close> or
  \<open>.dwg\<close> up to case. \<open>loadFile\<close> of the first version reads the file exactly when
  its name is accepted. \<open>loadFile\<close> of the second version does so exactly when, besides,
  the runtime instance exists; without one it rejects every file with the message that
  the viewer is not initialized. In both, a file whose name is not accepted is rejected
  with an error message, and neither a read nor a call of \<open>openDocument\<close> is made.
\<close>

theorem loadFile_accepts_by_extension:
  "reads (loadFile env f s) =
      reads s @ (if accepted_name (file_name f) then [ReadAsArrayBuffer (file_name f)] else [])
   \<and> (\<not> accepted_name (file_name f) \<longrightarrow>
        map textContent (popups (loadFile env f s)) = [''Please select a DXF or DWG file'']
        \<and> map classList (popups (loadFile env f s)) = [[''popup-message'', ''error'']]
        \<and> opens (loadFile env f s) = opens s)
   \<and> (docManager s \<noteq> None \<longrightarrow>
        reads (loadFile2 env f s) =
          reads s @ (if accepted_name (file_name f)
                     then [if ends_with_ci (file_name f) ''.dxf'' then ReadAsText (file_name f)
                           else ReadAsArrayBuffer (file_name f)]
                     else []))
   \<and> (docManager s \<noteq> None \<and> \<not> accepted_name (file_name f) \<longrightarrow>
        map textContent (popups (loadFile2 env f s)) = [''Please select a DXF or DWG file'']
        \<and> map classList (popups (loadFile2 env f s)) = [[''popup-message'', ''error'']]
        \<and> opens (loadFile2 env f s) = opens s)
   \<and> (docManager s = None \<longrightarrow>
        reads (loadFile2 env f s) = reads s
        \<and> opens (loadFile2 env f s) = opens s
        \<and> map textContent (popups (loadFile2 env f s)) = [''CAD viewer not initialized'']
        \<and> map classList (popups (loadFile2 env f s)) = [[''popup-message'', ''error'']])"
proof (intro conjI impI)
  show "reads (loadFile env f s) =
      reads s @ (if accepted_name (file_name f) then [ReadAsArrayBuffer (file_name f)] else [])"
    by (rule reads_loadFile)
next
  assume n: "\<not> accepted_name (file_name f)"
  show "map textContent (popups (loadFile env f s)) = [''Please select a DXF or DWG file'']"
    and "map classList (popups (loadFile env f s)) = [[''popup-message'', ''error'']]"
    by (simp_all add: loadFile_invalid [OF n] popups_showMessage new_popup_def)
  show "opens (loadFile env f s) = opens s"
    by (rule opens_loadFile_invalid [OF n])
next
  assume "docManager s \<noteq> None"
  then obtain m where m: "docManager s = Some m"
    by auto
  show "reads (loadFile2 env f s) =
          reads s @ (if accepted_name (file_name f)
                     then [if ends_with_ci (file_name f) ''.dxf'' then ReadAsText (file_name f)
                           else ReadAsArrayBuffer (file_name f)]
                     else [])"
    by (simp add: reads_loadFile2 [OF m] accepted_name_def)
next
  assume h: "docManager s \<noteq> None \<and> \<not> accepted_name (file_name f)"
  then obtain m where m: "docManager s = Some m"
    by auto
  from h have n: "\<not> accepted_name (file_name f)"
    by simp
  show "map textContent (popups (loadFile2 env f s)) = [''Please select a DXF or DWG file'']"
    and "map classList (popups (loadFile2 env f s)) = [[''popup-message'', ''error'']]"
    and "opens (loadFile2 env f s) = opens s"
    by (simp_all add: loadFile2_invalid [OF m n] popups_showMessage new_popup_def opens_def
        trace_showMessage)
next
  assume d: "docManager s = None"
  show "reads (loadFile2 env f s) = reads s"
    and "opens (loadFile2 env f s) = opens s"
    and "map textContent (popups (loadFile2 env f s)) = [''CAD viewer not initialized'']"
    and "map classList (popups (loadFile2 env f s)) = [[''popup-message'', ''error'']]"
    by (simp_all add: loadFile2_no_instance [OF d] popups_showMessage new_popup_def opens_def
        reads_def trace_showMessage)
qed

theorem loadFile_accepts_by_extension_witness:
  "accepted_name (file_name plan_dxf) \<and> \<not> accepted_name (file_name notes_txt)
   \<and> reads (loadFile env_ok plan_dxf start_app) = [ReadAsArrayBuffer ''Plan.DXF'']
   \<and> reads (loadFile env_ok notes_txt start_app) = []
   \<and> opens (loadFile env_ok notes_txt start_app) = []
   \<and> map textContent (popups (loadFile env_ok notes_txt start_app))
       = [''Please select a DXF or DWG file'']
   \<and> docManager (initialize env_ok start_app) \<noteq> None
   \<and> reads (loadFile2 env_ok plan_dxf (initialize env_ok start_app)) = [ReadAsText ''Plan.DXF'']
   \<and> reads (loadFile2 env_ok notes_txt (initialize env_ok start_app)) = []
   \<and> docManager start_app = None
   \<and> reads (loadFile2 env_ok plan_dxf start_app) = []"
proof -
  have a: "accepted_name (file_name plan_dxf)"
    by (simp add: accepted_name_def ends_with_ci_def plan_dxf_def toLowerCase_def)
  have x: "ends_with_ci (file_name plan_dxf) ''.dxf''"
    by (simp add: ends_with_ci_def plan_dxf_def toLowerCase_def)
  have n: "\<not> accepted_name (file_name notes_txt)"
    by (simp add: accepted_name_def ends_with_ci_def notes_txt_def toLowerCase_def)
  have r0: "reads start_app = []" and o0: "opens start_app = []" and d0: "docManager start_app = None"
    by (simp_all add: reads_def opens_def start_app_def)
  have d1: "docManager (initialize env_ok start_app) \<noteq> None"
    by (simp add: initialize_start)
  have r1: "reads (initialize env_ok start_app) = []"
    by (simp add: reads_initialize r0)
  have fn: "file_name plan_dxf = ''Plan.DXF''"
    by (simp add: plan_dxf_def)
  show ?thesis
    using loadFile_accepts_by_extension [of env_ok plan_dxf start_app]
      loadFile_accepts_by_extension [of env_ok notes_txt start_app]
      loadFile_accepts_by_extension [of env_ok plan_dxf "initialize env_ok start_app"]
      loadFile_accepts_by_extension [of env_ok notes_txt "initialize env_ok start_app"]
      a x n r0 o0 d0 d1 r1 fn
    by simp
qed

lemma readFile_ok:
  "read_error env = None \<Longrightarrow>
     readFile env f s =
       (Inr (ArrayBuffer (file_data f)), s\<lparr>trace := trace s @ [ReadAsArrayBuffer (file_name f)]\<rparr>)"
  by (simp add: readFile_def)

lemma readFile2_dxf:
  "read_error env = None \<Longrightarrow> ends_with_ci (file_name f) ''.dxf'' \<Longrightarrow>
     readFile2 env f s =
       (Inr (Text (file_data f)), s\<lparr>trace := trace s @ [ReadAsText (file_name f)]\<rparr>)"
  by (simp add: readFile2_def name_tests)

lemma readFile2_dwg:
  "read_error env = None \<Longrightarrow> ends_with_ci (file_name f) ''.dwg'' \<Longrightarrow>
     readFile2 env f s =
       (Inr (ArrayBuffer (file_data f)), s\<lparr>trace := trace s @ [ReadAsArrayBuffer (file_name f)]\<rparr>)"
  using dwg_not_dxf [of "file_name f"] by (simp add: readFile2_def name_tests)

text \<open>
  C5 as the spec states it fails in the first version: its \<open>readFile\<close> reads the file
  \<open>Plan.DXF\<close> with \<open>readAsArrayBuffer\<close> and resolves to a buffer, not to text.
\<close>

theorem readFile_dxf_as_buffer_counterexample:
  "ends_with_ci (file_name plan_dxf) ''.dxf''
   \<and> fst (readFile env_ok plan_dxf start_app) = Inr (ArrayBuffer ''0 SECTION'')
   \<and> trace (snd (readFile env_ok plan_dxf start_app)) = [ReadAsArrayBuffer ''Plan.DXF'']"
  by (simp add: readFile_def env_ok_def plan_dxf_def start_app_def ends_with_ci_def
      toLowerCase_def)

text \<open>
  C5 as amended. \<open>readFile\<close> of the second version reads a file whose name ends in
  \<open>.dxf\<close> (up to case) as text and one whose name ends in \<open>.dwg\<close> as a binary
  buffer. \<open>readFile\<close> of the first version reads every file as a binary buffer,
  whatever its name. In both versions, when the name is accepted, the read succeeds and
  the runtime instance exists, \<open>loadFile\<close> forwards what was read to \<open>openDocument\<close>,
  once, with the file's name and the options.
\<close>

theorem readFile_by_version:
  "(read_error env = None \<longrightarrow>
      readFile env f s =
        (Inr (ArrayBuffer (file_data f)),
         s\<lparr>trace := trace s @ [ReadAsArrayBuffer (file_name f)]\<rparr>))
   \<and> (read_error env = None \<and> ends_with_ci (file_name f) ''.dxf'' \<longrightarrow>
      readFile2 env f s =
        (Inr (Text (file_data f)), s\<lparr>trace := trace s @ [ReadAsText (file_name f)]\<rparr>))
   \<and> (read_error env = None \<and> ends_with_ci (file_name f) ''.dwg'' \<longrightarrow>
      readFile2 env f s =
        (Inr (ArrayBuffer (file_data f)),
         s\<lparr>trace := trace s @ [ReadAsArrayBuffer (file_name f)]\<rparr>))
   \<and> (accepted_name (file_name f) \<and> read_error env = None
        \<and> docManager (initialize env s) \<noteq> None \<longrightarrow>
      opens (loadFile env f s) =
        opens s @ [OpenDocument (file_name f) (ArrayBuffer (file_data f))
                     \<lparr>minimumChunkSize = 1000, readOnly = True\<rparr>])
   \<and> (accepted_name (file_name f) \<and> read_error env = None \<and> docManager s \<noteq> None \<longrightarrow>
      opens (loadFile2 env f s) =
        opens s @ [OpenDocument (file_name f)
                     (if ends_with_ci (file_name f) ''.dxf'' then Text (file_data f)
                      else ArrayBuffer (file_data f))
                     \<lparr>minimumChunkSize = 1000, readOnly = True\<rparr>])"
proof (intro conjI impI)
  assume "read_error env = None"
  then show "readFile env f s =
        (Inr (ArrayBuffer (file_data f)),
         s\<lparr>trace := trace s @ [ReadAsArrayBuffer (file_name f)]\<rparr>)"
    by (rule readFile_ok)
next
  assume "read_error env = None \<and> ends_with_ci (file_name f) ''.dxf''"
  then show "readFile2 env f s =
        (Inr (Text (file_data f)), s\<lparr>trace := trace s @ [ReadAsText (file_name f)]\<rparr>)"
    by (simp add: readFile2_dxf)
next
  assume "read_error env = None \<and> ends_with_ci (file_name f) ''.dwg''"
  then show "readFile2 env f s =
        (Inr (ArrayBuffer (file_data f)),
         s\<lparr>trace := trace s @ [ReadAsArrayBuffer (file_name f)]\<rparr>)"
    by (simp add: readFile2_dwg)
next
  assume h: "accepted_name (file_name f) \<and> read_error env = None
        \<and> docManager (initialize env s) \<noteq> None"
  then obtain m where "docManager (initialize env s) = Some m"
    by auto
  with h show "opens (loadFile env f s) =
        opens s @ [OpenDocument (file_name f) (ArrayBuffer (file_data f))
                     \<lparr>minimumChunkSize = 1000, readOnly = True\<rparr>]"
    by (simp add: opens_loadFile)
next
  assume h: "accepted_name (file_name f) \<and> read_error env = None \<and> docManager s \<noteq> None"
  then obtain m where "docManager s = Some m"
    by auto
  with h show "opens (loadFile2 env f s) =
        opens s @ [OpenDocument (file_name f)
                     (if ends_with_ci (file_name f) ''.dxf'' then Text (file_data f)
                      else ArrayBuffer (file_data f))
                     \<lparr>minimumChunkSize = 1000, readOnly = True\<rparr>]"
    by (simp add: opens_loadFile2)
qed

theorem readFile_by_version_witness:
  "read_error env_ok = None
   \<and> ends_with_ci (file_name plan_dxf) ''.dxf'' \<and> ends_with_ci (file_name site_dwg) ''.dwg''
   \<and> fst (readFile env_ok plan_dxf start_app) = Inr (ArrayBuffer ''0 SECTION'')
   \<and> fst (readFile2 env_ok plan_dxf start_app) = Inr (Text ''0 SECTION'')
   \<and> fst (readFile2 env_ok site_dwg start_app) = Inr (ArrayBuffer ''AC1027'')
   \<and> opens (loadFile env_ok site_dwg start_app) =
       [OpenDocument ''site.dwg'' (ArrayBuffer ''AC1027'')
          \<lparr>minimumChunkSize = 1000, readOnly = True\<rparr>]
   \<and> opens (loadFile2 env_ok plan_dxf (initialize env_ok start_app)) =
       [OpenDocument ''Plan.DXF'' (Text ''0 SECTION'')
          \<lparr>minimumChunkSize = 1000, readOnly = True\<rparr>]"
proof -
  have e: "read_error env_ok = None"
    by (simp add: env_ok_def)
  have x: "ends_with_ci (file_name plan_dxf) ''.dxf''"
    by (simp add: ends_with_ci_def plan_dxf_def toLowerCase_def)
  have w: "ends_with_ci (file_name site_dwg) ''.dwg''"
    by (simp add: ends_with_ci_def site_dwg_def toLowerCase_def)
  have a: "accepted_name (file_name plan_dxf)" "accepted_name (file_name site_dwg)"
    using x w by (simp_all add: accepted_name_def)
  have d: "docManager (initialize env_ok start_app) \<noteq> None"
    by (simp add: initialize_start)
  have o0: "opens start_app = []"
    by (simp add: opens_def start_app_def)
  then have o: "opens start_app = []" "opens (initialize env_ok start_app) = []"
    by (simp_all add: opens_initialize)
  have n: "file_name plan_dxf = ''Plan.DXF''" "file_data plan_dxf = ''0 SECTION''"
    "file_name site_dwg = ''site.dwg''" "file_data site_dwg = ''AC1027''"
    by (simp_all add: plan_dxf_def site_dwg_def)
  show ?thesis
    using readFile_by_version [of env_ok plan_dxf start_app]
      readFile_by_version [of env_ok site_dwg start_app]
      readFile_by_version [of env_ok plan_dxf "initialize env_ok start_app"]
      e x w a d o
    by (simp add: n)
qed

lemma length_popups_loadFile: "length (popups (loadFile env f s)) = 1"
  using loadFile_is_message [of env f s] by (auto simp: popups_showMessage)

lemma loadFile_transient: "popups (run_timers (loadFile env f s)) = []"
  using loadFile_is_message [of env f s] by (auto simp: showMessage_transient)

lemma length_reads_loadFile: "length (reads (loadFile env f s)) \<le> Suc (length (reads s))"
  by (simp add: reads_loadFile)

lemma opens_loadFile_read_error:
  assumes "accepted_name (file_name f)" "read_error env = Some e"
  shows "opens (loadFile env f s) = opens s"
  using opens_initialize [of env s]
  by (simp add: loadFile_read_error [OF assms] opens_def trace_frame)

text \<open>
  C6. In the first version, \<open>loadFile\<close> reads the file at most once and calls
  \<open>openDocument\<close> at most once, whatever happens; it ends with exactly one popup on
  the page, and when the timers have run the popup is gone. For a file whose name is
  accepted: a rejected read gives an error popup and no call of \<open>openDocument\<close>; a
  rejection by \<open>openDocument\<close>, the answer \<open>false\<close>, or a missing runtime instance
  gives an error popup; the answer \<open>true\<close> gives a success popup.
\<close>

theorem loadFile_failure_terminal:
  "length (reads (loadFile env f s)) \<le> Suc (length (reads s))
   \<and> length (opens (loadFile env f s)) \<le> Suc (length (opens s))
   \<and> length (popups (loadFile env f s)) = 1
   \<and> popups (run_timers (loadFile env f s)) = []
   \<and> (accepted_name (file_name f) \<and> read_error env = Some e \<longrightarrow>
        map textContent (popups (loadFile env f s)) = [''Error loading file: '' @ e]
        \<and> map classList (popups (loadFile env f s)) = [[''popup-message'', ''error'']]
        \<and> opens (loadFile env f s) = opens s)
   \<and> (accepted_name (file_name f) \<and> read_error env = None
        \<and> docManager (initialize env s) = None \<longrightarrow>
        map textContent (popups (loadFile env f s)) =
          [''Error loading file: TypeError: AcApDocManager.instance is undefined'']
        \<and> map classList (popups (loadFile env f s)) = [[''popup-message'', ''error'']])
   \<and> (accepted_name (file_name f) \<and> read_error env = None
        \<and> docManager (initialize env s) \<noteq> None \<and> openDocument_result env = Inl e \<longrightarrow>
        map textContent (popups (loadFile env f s)) = [''Error loading file: '' @ e]
        \<and> map classList (popups (loadFile env f s)) = [[''popup-message'', ''error'']])
   \<and> (accepted_name (file_name f) \<and> read_error env = None
        \<and> docManager (initialize env s) \<noteq> None \<and> openDocument_result env = Inr False \<longrightarrow>
        map textContent (popups (loadFile env f s)) = [''Failed to load: '' @ file_name f]
        \<and> map classList (popups (loadFile env f s)) = [[''popup-message'', ''error'']])
   \<and> (accepted_name (file_name f) \<and> read_error env = None
        \<and> docManager (initialize env s) \<noteq> None \<and> openDocument_result env = Inr True \<longrightarrow>
        map textContent (popups (loadFile env f s)) = [''Successfully loaded: '' @ file_name f]
        \<and> map classList (popups (loadFile env f s)) = [[''popup-message'', ''success'']])"
proof (intro conjI impI)
  show "length (reads (loadFile env f s)) \<le> Suc (length (reads s))"
    by (rule length_reads_loadFile)
  show "length (opens (loadFile env f s)) \<le> Suc (length (opens s))"
    by (rule opens_loadFile_le)
  show "length (popups (loadFile env f s)) = 1"
    by (rule length_popups_loadFile)
  show "popups (run_timers (loadFile env f s)) = []"
    by (rule loadFile_transient)
next
  assume h: "accepted_name (file_name f) \<and> read_error env = Some e"
  then have a: "accepted_name (file_name f)" and r: "read_error env = Some e"
    by simp_all
  show "map textContent (popups (loadFile env f s)) = [''Error loading file: '' @ e]"
    and "map classList (popups (loadFile env f s)) = [[''popup-message'', ''error'']]"
    by (simp_all add: loadFile_read_error [OF a r] popups_load_catch)
  show "opens (loadFile env f s) = opens s"
    by (rule opens_loadFile_read_error [OF a r])
next
  assume h: "accepted_name (file_name f) \<and> read_error env = None
        \<and> docManager (initialize env s) = None"
  then have a: "accepted_name (file_name f)" and r: "read_error env = None"
    and d: "docManager (initialize env s) = None"
    by simp_all
  show "map textContent (popups (loadFile env f s)) =
          [''Error loading file: TypeError: AcApDocManager.instance is undefined'']"
    and "map classList (popups (loadFile env f s)) = [[''popup-message'', ''error'']]"
    by (simp_all add: loadFile_no_instance [OF a r d] popups_load_catch)
next
  assume h: "accepted_name (file_name f) \<and> read_error env = None
        \<and> docManager (initialize env s) \<noteq> None \<and> openDocument_result env = Inl e"
  then obtain m where a: "accepted_name (file_name f)" and r: "read_error env = None"
    and d: "docManager (initialize env s) = Some m" and o: "openDocument_result env = Inl e"
    by auto
  show "map textContent (popups (loadFile env f s)) = [''Error loading file: '' @ e]"
    and "map classList (popups (loadFile env f s)) = [[''popup-message'', ''error'']]"
    by (simp_all add: loadFile_opened [OF a r d] o popups_load_catch)
next
  assume h: "accepted_name (file_name f) \<and> read_error env = None
        \<and> docManager (initialize env s) \<noteq> None \<and> openDocument_result env = Inr False"
  then obtain m where a: "accepted_name (file_name f)" and r: "read_error env = None"
    and d: "docManager (initialize env s) = Some m" and o: "openDocument_result env = Inr False"
    by auto
  show "map textContent (popups (loadFile env f s)) = [''Failed to load: '' @ file_name f]"
    and "map classList (popups (loadFile env f s)) = [[''popup-message'', ''error'']]"
    by (simp_all add: loadFile_opened [OF a r d] o popups_showMessage new_popup_def)
next
  assume h: "accepted_name (file_name f) \<and> read_error env = None
        \<and> docManager (initialize env s) \<noteq> None \<and> openDocument_result env = Inr True"
  then obtain m where a: "accepted_name (file_name f)" and r: "read_error env = None"
    and d: "docManager (initialize env s) = Some m" and o: "openDocument_result env = Inr True"
    by auto
  show "map textContent (popups (loadFile env f s)) = [''Successfully loaded: '' @ file_name f]"
    and "map classList (popups (loadFile env f s)) = [[''popup-message'', ''success'']]"
    by (simp_all add: loadFile_opened [OF a r d] o popups_showMessage new_popup_def)
qed

text \<open>
  A read that fails, an \<open>openDocument\<close> that answers \<open>false\<close> and a load that
  succeeds, each from the freshly loaded page.
\<close>

theorem loadFile_failure_terminal_witness:
  "accepted_name (file_name site_dwg)
   \<and> read_error env_read_fails = Some ''NotReadableError''
   \<and> map textContent (popups (loadFile env_read_fails site_dwg start_app))
       = [''Error loading file: NotReadableError'']
   \<and> opens (loadFile env_read_fails site_dwg start_app) = []
   \<and> popups (run_timers (loadFile env_read_fails site_dwg start_app)) = []
   \<and> map textContent (popups (loadFile env_open_false site_dwg start_app))
       = [''Failed to load: site.dwg'']
   \<and> map classList (popups (loadFile env_open_false site_dwg start_app))
       = [[''popup-message'', ''error'']]
   \<and> map textContent (popups (loadFile env_ok site_dwg start_app))
       = [''Successfully loaded: site.dwg'']
   \<and> map classList (popups (loadFile env_ok site_dwg start_app))
       = [[''popup-message'', ''success'']]"
proof -
  have a: "accepted_name (file_name site_dwg)"
    by (simp add: accepted_name_def ends_with_ci_def site_dwg_def toLowerCase_def)
  have r: "read_error env_read_fails = Some ''NotReadableError''"
    "read_error env_open_false = None" "read_error env_ok = None"
    "openDocument_result env_open_false = Inr False" "openDocument_result env_ok = Inr True"
    by (simp_all add: env_read_fails_def env_open_false_def env_ok_def)
  have d: "docManager (initialize env_open_false start_app) \<noteq> None"
    "docManager (initialize env_ok start_app) \<noteq> None"
    by (simp_all add: initialize_def initialize_try_def createInstance_def initializeLocale_def
        registerCommands_def env_ok_def env_open_false_def start_app_def)
  have o: "opens start_app = []"
    by (simp add: opens_def start_app_def)
  have n: "file_name site_dwg = ''site.dwg''"
    by (simp add: site_dwg_def)
  show ?thesis
    using loadFile_failure_terminal [of env_read_fails site_dwg start_app "''NotReadableError''"]
      loadFile_failure_terminal [of env_open_false site_dwg start_app "[]"]
      loadFile_failure_terminal [of env_ok site_dwg start_app "[]"]
      a r d o
    by (simp add: n)
qed

lemma popups_fire_le: "length (popups (fire a s)) \<le> length (popups s)"
proof (cases a)
  case (FadeOut i)
  have "filter is_popup (map (\<lambda>e. if el_id e = i then set_style ''opacity'' ''0'' e else e) xs)
      = map (\<lambda>e. if el_id e = i then set_style ''opacity'' ''0'' e else e) (filter is_popup xs)"
    for xs
    by (induction xs) (simp_all add: is_popup_set_style)
  then show ?thesis
    using FadeOut by (simp add: popups_def setTimeout_def)
next
  case (RemovePopup i)
  have "popups (fire a s) = filter (\<lambda>e. el_id e \<noteq> i) (popups s)"
    using RemovePopup by (simp add: popups_def conj_commute)
  then show ?thesis
    using length_filter_le [of "\<lambda>e. el_id e \<noteq> i" "popups s"] by simp
qed

lemma popups_timers_upd: "popups (s\<lparr>timers := ts, now := n\<rparr>) = popups s"
  by (simp add: popups_def)

lemma length_popups_initialize: "length (popups (initialize env s)) \<le> max 1 (length (popups s))"
proof (cases "isInitialized s")
  case True
  then show ?thesis by (simp add: initialize_def)
next
  case False
  show ?thesis
  proof (cases "initialize_try env s")
    case (Inl a)
    obtain e s' where "a = (e, s')" by (cases a)
    with False Inl show ?thesis
      by (simp add: initialize_def popups_showMessage)
  next
    case (Inr s')
    then have "body s' = body s"
      by (auto simp: initialize_try_def createInstance_def initializeLocale_def
          registerCommands_def split: option.splits sum.splits)
    with False Inr show ?thesis
      by (simp add: initialize_def popups_def)
  qed
qed

lemma length_popups_initializeViewer:
  "length (popups (initializeViewer env s)) \<le> max 1 (length (popups s))"
proof (cases "createInstance_error env")
  case None
  then show ?thesis
    by (simp add: initializeViewer_def createInstance_def popups_def)
next
  case (Some e)
  then show ?thesis
    by (simp add: initializeViewer_def createInstance_def popups_showMessage)
qed

lemma length_popups_loadFile2: "length (popups (loadFile2 env f s)) = 1"
proof (cases "docManager s")
  case None
  then show ?thesis
    by (simp add: loadFile2_no_instance popups_showMessage)
next
  case (Some m)
  show ?thesis
  proof (cases "accepted_name (file_name f)")
    case False
    then show ?thesis
      by (simp add: loadFile2_invalid [OF Some] popups_showMessage)
  next
    case True
    obtain r s2 where r: "readFile2 env f (clearMessages (showLoading True s)) = (r, s2)"
      by (cases "readFile2 env f (clearMessages (showLoading True s))")
    show ?thesis
    proof (cases r)
      case (Inl e)
      then show ?thesis
        using r by (simp add: loadFile2_valid [OF Some True] popups_frame load_catch_def
            popups_showMessage)
    next
      case (Inr c)
      then show ?thesis
        using r
        by (simp add: loadFile2_valid [OF Some True] popups_frame load_catch_def
            popups_showMessage open_and_report_def openDocument_def Let_def
            split: option.splits sum.splits)
    qed
  qed
qed

lemma step_popups: "step s s' \<Longrightarrow> length (popups s) \<le> 1 \<Longrightarrow> length (popups s') \<le> 1"
proof (induction rule: step.induct)
  case (step_loadFile s env f)
  then show ?case by (simp add: length_popups_loadFile)
next
  case (step_loadFile2 s env f)
  then show ?case by (simp add: length_popups_loadFile2)
next
  case (step_initialize s env)
  then show ?case using length_popups_initialize [of env s] by simp
next
  case (step_initializeViewer s env)
  then show ?case using length_popups_initializeViewer [of env s] by simp
next
  case (step_showMessage s m ty)
  then show ?case by (simp add: popups_showMessage)
next
  case (step_clearMessages s)
  then show ?case by (simp add: popups_clearMessages)
next
  case (step_timer s due f rest)
  then show ?case
    using popups_fire_le [of f "s\<lparr>timers := rest, now := max (now s) due\<rparr>"]
    by (simp add: popups_timers_upd)
qed

lemma reachable_popups: "reachable s \<Longrightarrow> length (popups s) \<le> 1"
proof (induction rule: reachable.induct)
  case (reachable_start s)
  then show ?case by simp
next
  case (reachable_step s s')
  from reachable_step.hyps(2) reachable_step.IH show ?case
    by (rule step_popups)
qed

text \<open>
  C10. \<open>showMessage\<close> removes every element of class \<open>popup-message\<close> before it
  appends the new one: whatever the page held, afterwards its popups are the new popup
  alone, and \<open>clearMessages\<close> leaves none. A timer that fires never adds a popup. So on
  a page that starts without a popup, every state reached by loading files, by
  initializing, by showing or clearing messages and by timers firing holds at most one
  popup.
\<close>

theorem at_most_one_popup:
  "popups (showMessage m ty s) = [new_popup (next_id s) m ty]
   \<and> popups (clearMessages s) = []
   \<and> length (popups (fire a s)) \<le> length (popups s)
   \<and> (reachable s \<longrightarrow> length (popups s) \<le> 1)"
proof (intro conjI impI)
  show "popups (showMessage m ty s) = [new_popup (next_id s) m ty]"
    by (rule popups_showMessage)
  show "popups (clearMessages s) = []"
    by (rule popups_clearMessages)
  show "length (popups (fire a s)) \<le> length (popups s)"
    by (rule popups_fire_le)
  show "reachable s \<Longrightarrow> length (popups s) \<le> 1"
    by (rule reachable_popups)
qed

text \<open>
  Two messages in a row on the freshly loaded page: the state is reachable, and only the
  second message is on the page.
\<close>

theorem at_most_one_popup_witness:
  "reachable (showMessage ''second'' Info (showMessage ''first'' Error start_app))
   \<and> length (popups (showMessage ''second'' Info (showMessage ''first'' Error start_app))) \<le> 1
   \<and> map textContent (popups (showMessage ''second'' Info (showMessage ''first'' Error start_app)))
       = [''second'']"
proof -
  have "popups start_app = []"
    by (simp add: popups_def start_app_def)
  then have "reachable start_app"
    by (rule reachable_start)
  then have "reachable (showMessage ''first'' Error start_app)"
    by (rule reachable_step) (rule step_showMessage)
  then have r: "reachable (showMessage ''second'' Info (showMessage ''first'' Error start_app))"
    by (rule reachable_step) (rule step_showMessage)
  show ?thesis
    using at_most_one_popup [of "''second''" Info "showMessage ''first'' Error start_app"] r
    by (simp add: new_popup_def)
qed

end
